theory Spec2Isabelle
  imports Main "HOL-Library.Sublist"
begin

text \<open>
  The plugin \<^verbatim>\<open>ServerlessCustomDomain\<close> exists twice in the repository: as the TypeScript
  source \<^verbatim>\<open>index.ts\<close> and as a compiled build (the JavaScript file with the \<^verbatim>\<open>__awaiter\<close>
  helper). The two are not the same edition. The build pages through the certificate
  listing, validates the domain configurations, filters disabled domains and guards
  \<^verbatim>\<open>logIfDebug\<close> by \<^verbatim>\<open>SLS_DEBUG\<close>; \<^verbatim>\<open>index.ts\<close> lists certificates once, has no validation and
  logs whatever the environment holds. The functions below follow the build; where
  \<^verbatim>\<open>index.ts\<close> differs in a way that matters here, its function is modelled as well, under
  the same name with the suffix \<open>_ts\<close>. \<^verbatim>\<open>changeResourceRecordSet\<close>, \<^verbatim>\<open>getRoute53HostedZoneId\<close>,
  \<^verbatim>\<open>getDomainInfo\<close> and \<^verbatim>\<open>createDomains\<close> have the same statements in both files, up to the
  wording of two log lines, the client that \<^verbatim>\<open>getDomainName\<close> is called on and the
  \<^verbatim>\<open>logIfDebug\<close> of their file, which they call when they catch an error.
  \<^verbatim>\<open>createCustomDomain\<close> follows the build (it branches on the endpoint type; in
  \<^verbatim>\<open>index.ts\<close> it branches on the API type).

  A promise is modelled by its settled value: \<open>Inl\<close> of the error it was rejected with,
  \<open>Inr\<close> of its result. What a function does besides returning (log lines, remote calls)
  is returned as a list of events, in order.
\<close>

section \<open>JavaScript strings and values\<close>

text \<open>
  Strings are character lists. The plugin uses a handful of \<^verbatim>\<open>String.prototype\<close>
  operations; each is written out here with the result JavaScript gives, including the
  results at the edges (\<^verbatim>\<open>indexOf\<close> returning \<open>-1\<close>, \<^verbatim>\<open>split\<close> of the empty string,
  \<^verbatim>\<open>substring\<close> swapping its arguments).
\<close>

definition newline :: string where
  "newline = [CHR 0x0A]"

definition dquote :: string where
  "dquote = [CHR 0x22]"

text \<open>An optional string in a condition: \<^verbatim>\<open>undefined\<close> and \<^verbatim>\<open>""\<close> are falsy.\<close>

definition truthy :: "string option \<Rightarrow> bool" where
  "truthy v = (case v of None \<Rightarrow> False | Some s \<Rightarrow> s \<noteq> [])"

text \<open>\<^verbatim>\<open>s.includes(x)\<close>: \<open>x\<close> occurs in \<open>s\<close> as a contiguous run.\<close>

fun includes_str :: "string \<Rightarrow> string \<Rightarrow> bool" where
  "includes_str [] x = (x = [])"
| "includes_str (c # cs) x = (prefix x (c # cs) \<or> includes_str cs x)"

text \<open>\<^verbatim>\<open>s.indexOf(x)\<close>: the position of the first occurrence, \<open>-1\<close> when there is none.\<close>

fun indexOfFrom :: "string \<Rightarrow> string \<Rightarrow> nat \<Rightarrow> int" where
  "indexOfFrom [] x i = (if x = [] then int i else - 1)"
| "indexOfFrom (c # cs) x i = (if prefix x (c # cs) then int i else indexOfFrom cs x (Suc i))"

definition indexOf :: "string \<Rightarrow> string \<Rightarrow> int" where
  "indexOf s x = indexOfFrom s x 0"

text \<open>\<^verbatim>\<open>s.substring(a, b)\<close>: both indices are clamped to \<open>[0, length]\<close> and swapped
  when \<open>a > b\<close>.\<close>

definition substring :: "string \<Rightarrow> int \<Rightarrow> int \<Rightarrow> string" where
  "substring s a b =
     (let n = int (length s);
          a' = max 0 (min a n);
          b' = max 0 (min b n);
          lo = min a' b';
          hi = max a' b'
      in take (nat (hi - lo)) (drop (nat lo) s))"

text \<open>\<^verbatim>\<open>s.split(".")\<close>: always at least one piece; \<^verbatim>\<open>"".split(".")\<close> is \<^verbatim>\<open>[""]\<close>.\<close>

fun split :: "char \<Rightarrow> string \<Rightarrow> string list" where
  "split sep [] = [[]]"
| "split sep (c # cs) =
     (if c = sep then [] # split sep cs
      else (case split sep cs of
              [] \<Rightarrow> [[c]]
            | w # ws \<Rightarrow> (c # w) # ws))"

text \<open>\<^verbatim>\<open>s.endsWith(".")\<close> and \<^verbatim>\<open>s.slice(0, -1)\<close>.\<close>

definition endsWith :: "string \<Rightarrow> char \<Rightarrow> bool" where
  "endsWith s c = (s \<noteq> [] \<and> last s = c)"

definition slice_0_minus1 :: "string \<Rightarrow> string" where
  "slice_0_minus1 s = butlast s"

text \<open>\<^verbatim>\<open>xs[i]\<close> on an array: \<^verbatim>\<open>undefined\<close> (here \<open>None\<close>) out of range.\<close>

definition at :: "'a list \<Rightarrow> nat \<Rightarrow> 'a option" where
  "at xs i = (if i < length xs then Some (xs ! i) else None)"

text \<open>\<^verbatim>\<open>s.toLowerCase()\<close> on the letters \<^verbatim>\<open>A\<close> to \<^verbatim>\<open>Z\<close>.\<close>

definition toLowerCase :: "string \<Rightarrow> string" where
  "toLowerCase s =
     map (\<lambda>c. let n = (of_char c :: nat) in if 65 \<le> n \<and> n \<le> 90 then char_of (n + 32) else c) s"

section \<open>Data model\<close>

text \<open>\<^verbatim>\<open>Globals.apiTypes\<close> and \<^verbatim>\<open>Globals.endpointTypes\<close> (\<^verbatim>\<open>dist/Globals.js\<close>).\<close>

datatype apiType = HTTP | REST | WEBSOCKET

datatype endpointType = EDGE | REGIONAL

text \<open>The lookup \<^verbatim>\<open>Globals.apiTypes[key]\<close> on the table's own keys.\<close>

definition apiTypes :: "string \<Rightarrow> apiType option" where
  "apiTypes key =
     (if key = ''http'' then Some HTTP
      else if key = ''rest'' then Some REST
      else if key = ''websocket'' then Some WEBSOCKET
      else None)"

text \<open>
  \<^verbatim>\<open>DomainInfo\<close> and \<^verbatim>\<open>DomainConfig\<close> are classes of the repository whose files are not
  part of the sources at hand. Their fields are the ones the plugin reads and writes;
  their constructors are parameters of the model (\<open>newDomainInfo\<close>, \<open>newDomainConfig\<close>
  below).
\<close>

record DomainInfo =
  domainName :: string
  info_hostedZoneId :: string

record DomainConfig =
  givenDomainName :: string
  apiType :: apiType
  endpointType :: endpointType
  securityPolicy :: string
  certificateArn :: "string option"
  certificateName :: "string option"
  hostedZoneId :: "string option"
  hostedZonePrivate :: "bool option"
  createRoute53Record :: "bool option"
  enabled :: bool
  allowPathMatching :: bool
  domainInfo :: "DomainInfo option"

text \<open>Errors. \<open>AwsError code message\<close> is a rejection of an SDK call; \<open>Error\<close> and
  \<open>TypeError\<close> are the JavaScript errors the plugin throws or runs into.\<close>

datatype error =
    AwsError string string
  | TypeError string
  | Error string

text \<open>\<^verbatim>\<open>`${err}`\<close> and \<^verbatim>\<open>err.code\<close>.\<close>

fun toString :: "error \<Rightarrow> string" where
  "toString (AwsError c m) = c @ '': '' @ m"
| "toString (TypeError m) = ''TypeError: '' @ m"
| "toString (Error m) = ''Error: '' @ m"

fun code :: "error \<Rightarrow> string option" where
  "code (AwsError c m) = Some c"
| "code (TypeError m) = None"
| "code (Error m) = None"

subsection \<open>Requests and responses of the cloud provider\<close>

record CertificateSummary =
  CertificateArn :: string
  DomainName :: string

record ListCertificatesResponse =
  CertificateSummaryList :: "CertificateSummary list"
  NextToken :: "string option"

text \<open>A hosted zone of the listing: its \<^verbatim>\<open>Id\<close>, its \<^verbatim>\<open>Name\<close> and \<^verbatim>\<open>Config.PrivateZone\<close>.\<close>

record HostedZone =
  ZoneId :: string
  ZoneName :: string
  PrivateZone :: bool

record AliasTarget =
  DNSName :: string
  EvaluateTargetHealth :: bool
  alias_HostedZoneId :: string

record ResourceRecordSet =
  AliasTarget :: AliasTarget
  Name :: string
  Type :: string

record Change =
  Action :: string
  ResourceRecordSet :: ResourceRecordSet

record ChangeBatch =
  Changes :: "Change list"
  Comment :: string

record ChangeResourceRecordSetsRequest =
  ChangeBatch :: ChangeBatch
  HostedZoneId :: string

text \<open>
  The remote calls the plugin makes, as they appear in a run's trace, each with the
  parameters it was given: \<open>ListCertificates region NextToken\<close>;
  \<open>CreateDomainName certificateArn domainName types securityPolicy\<close> (API Gateway, for EDGE);
  \<open>CreateDomainNameV2 DomainName CertificateArn EndpointType SecurityPolicy\<close>.
\<close>

datatype call =
    GetDomainName string
  | ListCertificates string "string option"
  | CreateDomainName "string option" string "endpointType list" string
  | CreateDomainNameV2 string "string option" endpointType string
  | ListHostedZones
  | ChangeResourceRecordSets ChangeResourceRecordSetsRequest

text \<open>What a run does that can be seen from outside: lines written with
  \<^verbatim>\<open>serverless.cli.log\<close> (with or without an entity label) and remote calls.\<close>

datatype event =
    Log string
  | LogEntity string string
  | Call call

definition isCall :: "event \<Rightarrow> bool" where
  "isCall e = (case e of Call c \<Rightarrow> True | _ \<Rightarrow> False)"

text \<open>
  The SDK clients. Each call is answered by a function of its request: \<open>Inl\<close> is a
  rejected promise. The certificate store is one per region. \<open>'r\<close> is the raw answer of
  the domain-name calls, read only through the \<^verbatim>\<open>DomainInfo\<close> constructor.
\<close>

record 'r aws =
  getDomainName :: "string \<Rightarrow> error + 'r"
  createDomainName :: "string option \<Rightarrow> string \<Rightarrow> endpointType list \<Rightarrow> string \<Rightarrow> error + 'r"
  createDomainNameV2 :: "string \<Rightarrow> string option \<Rightarrow> endpointType \<Rightarrow> string \<Rightarrow> error + 'r"
  listCertificates :: "string \<Rightarrow> string option \<Rightarrow> error + ListCertificatesResponse"
  listHostedZones :: "error + HostedZone list"
  changeResourceRecordSets :: "ChangeResourceRecordSetsRequest \<Rightarrow> error + unit"
  newDomainInfo :: "'r \<Rightarrow> DomainInfo"

text \<open>
  The plugin object: what it reads from its host (\<open>getRegion\<close> is
  \<^verbatim>\<open>serverless.providers.aws.getRegion()\<close>, \<open>SLS_DEBUG\<close> is \<^verbatim>\<open>process.env.SLS_DEBUG\<close>,
  \<open>customDomain_hostedZoneId\<close> is \<^verbatim>\<open>serverless.service.custom.customDomain.hostedZoneId\<close>)
  and its own fields \<open>acmRegion\<close> (the region of the one client \<^verbatim>\<open>this.acm\<close>; \<open>None\<close>
  while \<^verbatim>\<open>this.acm\<close> is unset) and \<open>domains\<close>.
\<close>

record plugin =
  getRegion :: string
  SLS_DEBUG :: "string option"
  customDomain_hostedZoneId :: "string option"
  acmRegion :: "string option"
  domains :: "DomainConfig list"

section \<open>Debug logging\<close>

text \<open>\<^verbatim>\<open>logIfDebug\<close> of the compiled build: guarded by \<^verbatim>\<open>process.env.SLS_DEBUG\<close>.\<close>

definition logIfDebug :: "plugin \<Rightarrow> error \<Rightarrow> string \<Rightarrow> event list" where
  "logIfDebug p message domain =
     (if truthy (SLS_DEBUG p)
      then [LogEntity (''Error: '' @ (if domain \<noteq> [] then domain @ '': '' else []) @ '' '' @ toString message)
                      ''Serverless Domain Manager'']
      else [])"

text \<open>\<^verbatim>\<open>logIfDebug\<close> of \<^verbatim>\<open>index.ts\<close>: the guard is \<^verbatim>\<open>process.env.SLS_DEBUG || true\<close>.\<close>

definition logIfDebug_ts :: "plugin \<Rightarrow> error \<Rightarrow> string \<Rightarrow> event list" where
  "logIfDebug_ts p message domain =
     (if truthy (SLS_DEBUG p) \<or> True
      then [LogEntity ((if domain \<noteq> [] then domain @ '': '' else []) @ '' '' @ toString message)
                      ''Serverless Domain Manager'']
      else [])"

section \<open>Certificate resolution\<close>

text \<open>
  The \<^verbatim>\<open>do ... while (nextToken)\<close> loop of \<^verbatim>\<open>getCertArn\<close> in the compiled build. It
  returns the tokens it asked with, in order, and either the error of the call that
  failed or the concatenation of the pages. A store that keeps handing out tokens makes
  it run forever: the result is then \<open>None\<close>.
\<close>

partial_function (option) listCertificates_loop ::
  "(string option \<Rightarrow> error + ListCertificatesResponse) \<Rightarrow> CertificateSummary list \<Rightarrow>
   string option \<Rightarrow> string option list \<Rightarrow>
   (string option list \<times> (error + CertificateSummary list)) option"
where
  "listCertificates_loop acm certificates nextToken asked =
     (case acm nextToken of
        Inl err \<Rightarrow> Some (asked @ [nextToken], Inl err)
      | Inr certData \<Rightarrow>
          (let certificates' = certificates @ CertificateSummaryList certData;
               nextToken' = NextToken certData
           in if truthy nextToken'
              then listCertificates_loop acm certificates' nextToken' (asked @ [nextToken])
              else Some (asked @ [nextToken], Inr certificates')))"

text \<open>The wildcard is taken out: \<^verbatim>\<open>if (name[0] === "*") name = name.substr(1)\<close>.\<close>

definition stripWildcard :: "string \<Rightarrow> string" where
  "stripWildcard certificateListName =
     (case certificateListName of
        [] \<Rightarrow> []
      | c # cs \<Rightarrow> if c = CHR ''*'' then cs else c # cs)"

text \<open>One round of \<^verbatim>\<open>certificates.forEach\<close>; the state is \<open>(nameLength, certificateArn)\<close>.\<close>

definition forEach_certificate ::
  "string \<Rightarrow> nat \<times> string option \<Rightarrow> CertificateSummary \<Rightarrow> nat \<times> string option" where
  "forEach_certificate name st certificate =
     (let certificateListName = stripWildcard (DomainName certificate)
      in if includes_str name certificateListName
            \<and> length certificateListName > fst st
         then (length certificateListName, Some (CertificateArn certificate))
         else st)"

definition certNotFound :: "string \<Rightarrow> error" where
  "certNotFound name =
     Error (''Error: Could not find the certificate '' @ name @ ''.'')"

definition certListFailed :: "error \<Rightarrow> error" where
  "certListFailed err =
     Error (''Error: Could not list certificates in Certificate Manager.'' @ newline @ toString err)"

text \<open>
  What \<^verbatim>\<open>getCertArn\<close> does with the certificates once they are listed (the same text in
  \<^verbatim>\<open>index.ts\<close> and in the compiled build): by exact name when \<^verbatim>\<open>certificateName\<close> is
  given, by the longest contained name otherwise, and the final
  \<^verbatim>\<open>certificateArn == null\<close> check.
\<close>

definition getCertArn_select :: "DomainConfig \<Rightarrow> CertificateSummary list \<Rightarrow> error + string" where
  "getCertArn_select domain certificates =
     (case certificateName domain of
        Some name \<Rightarrow>
          (case find (\<lambda>certificate. DomainName certificate = name) certificates of
             Some foundCertificate \<Rightarrow> Inr (CertificateArn foundCertificate)
           | None \<Rightarrow> Inl (certNotFound name))
      | None \<Rightarrow>
          (case snd (foldl (forEach_certificate (givenDomainName domain)) (0, None) certificates) of
             Some arn \<Rightarrow> Inr arn
           | None \<Rightarrow> Inl (certNotFound (givenDomainName domain))))"

text \<open>\<^verbatim>\<open>getCertArn\<close> of the compiled build (paginated listing).\<close>

definition getCertArn :: "plugin \<Rightarrow> 'r aws \<Rightarrow> DomainConfig \<Rightarrow> (event list \<times> (error + string)) option" where
  "getCertArn p aws domain =
     (if truthy (certificateArn domain)
      then Some ([Log (''Selected specific certificateArn '' @ the (certificateArn domain))],
                 Inr (the (certificateArn domain)))
      else (case acmRegion p of
              None \<Rightarrow>
                (let err = TypeError ''Cannot read property 'listCertificates' of undefined''
                 in Some (logIfDebug p err (givenDomainName domain), Inl (certListFailed err)))
            | Some r \<Rightarrow>
                (case listCertificates_loop (listCertificates aws r) [] None [] of
                   None \<Rightarrow> None
                 | Some (asked, Inl err) \<Rightarrow>
                     Some (map (\<lambda>t. Call (ListCertificates r t)) asked
                             @ logIfDebug p err (givenDomainName domain),
                           Inl (certListFailed err))
                 | Some (asked, Inr certificates) \<Rightarrow>
                     Some (map (\<lambda>t. Call (ListCertificates r t)) asked,
                           getCertArn_select domain certificates))))"

text \<open>\<^verbatim>\<open>getCertArn\<close> of \<^verbatim>\<open>index.ts\<close>: one listing call, whose \<^verbatim>\<open>NextToken\<close> is not read.\<close>

definition getCertArn_ts :: "plugin \<Rightarrow> 'r aws \<Rightarrow> DomainConfig \<Rightarrow> event list \<times> (error + string)" where
  "getCertArn_ts p aws domain =
     (if truthy (certificateArn domain)
      then ([Log (''Selected specific certificateArn '' @ the (certificateArn domain))],
            Inr (the (certificateArn domain)))
      else (case acmRegion p of
              None \<Rightarrow>
                (let err = TypeError ''Cannot read property 'listCertificates' of undefined''
                 in (logIfDebug_ts p err (givenDomainName domain), Inl (certListFailed err)))
            | Some r \<Rightarrow>
                (case listCertificates aws r None of
                   Inl err \<Rightarrow>
                     (Call (ListCertificates r None) # logIfDebug_ts p err (givenDomainName domain),
                      Inl (certListFailed err))
                 | Inr certData \<Rightarrow>
                     ([Call (ListCertificates r None)],
                      getCertArn_select domain (CertificateSummaryList certData)))))"

section \<open>Hosted zone resolution\<close>

text \<open>
  The loop of the zone filter:
  \<^verbatim>\<open>for (i = 0; i < zone.length; i += 1) if (given[i] !== zone[i]) return false; return true\<close>.
  Reading \<^verbatim>\<open>given[i]\<close> past the end gives \<^verbatim>\<open>undefined\<close>, which differs from every label.
\<close>

function labelsLoop :: "string list \<Rightarrow> string list \<Rightarrow> nat \<Rightarrow> bool" where
  "labelsLoop givenDomainNameReverse hostedZoneNameReverse i =
     (if i < length hostedZoneNameReverse
      then (if at givenDomainNameReverse i \<noteq> Some (hostedZoneNameReverse ! i)
            then False
            else labelsLoop givenDomainNameReverse hostedZoneNameReverse (i + 1))
      else True)"
  by pat_completeness auto
termination
  by (relation "measure (\<lambda>(g, z, i). length z - i)") auto

declare labelsLoop.simps [simp del]

text \<open>The callback of \<^verbatim>\<open>HostedZones.filter\<close>.\<close>

definition hostedZone_filter :: "DomainConfig \<Rightarrow> HostedZone \<Rightarrow> bool" where
  "hostedZone_filter domain hostedZone =
     (let givenDomainNameReverse = rev (split (CHR ''.'') (givenDomainName domain));
          filterZone = (hostedZonePrivate domain \<noteq> None);
          hostedZoneName = (if endsWith (ZoneName hostedZone) (CHR ''.'')
                            then slice_0_minus1 (ZoneName hostedZone)
                            else ZoneName hostedZone)
      in if \<not> filterZone \<or> hostedZonePrivate domain = Some (PrivateZone hostedZone)
         then (let hostedZoneNameReverse = rev (split (CHR ''.'') hostedZoneName)
               in if length givenDomainNameReverse = 1
                     \<or> length givenDomainNameReverse \<ge> length hostedZoneNameReverse
                  then labelsLoop givenDomainNameReverse hostedZoneNameReverse 0
                  else False)
         else False)"

text \<open>\<^verbatim>\<open>.sort((zone1, zone2) => zone2.Name.length - zone1.Name.length)\<close>: a stable sort,
  longest name first.\<close>

definition sortByNameLength :: "HostedZone list \<Rightarrow> HostedZone list" where
  "sortByNameLength zones = sort_key (\<lambda>zone. - int (length (ZoneName zone))) zones"

definition targetHostedZone :: "DomainConfig \<Rightarrow> HostedZone list \<Rightarrow> HostedZone option" where
  "targetHostedZone domain zones =
     (case sortByNameLength (filter (hostedZone_filter domain) zones) of
        [] \<Rightarrow> None
      | zone # rest \<Rightarrow> Some zone)"

text \<open>\<^verbatim>\<open>hostedZoneId.substring(hostedZoneId.indexOf("e/") + 2, hostedZoneId.length)\<close>.\<close>

definition extractHostedZoneId :: "string \<Rightarrow> string" where
  "extractHostedZoneId zoneId =
     (let startPos = indexOf zoneId ''e/'' + 2;
          endPos = int (length zoneId)
      in substring zoneId startPos endPos)"

definition hostedZoneListFailed :: "error \<Rightarrow> error" where
  "hostedZoneListFailed err =
     Error (''Error: Unable to list hosted zones in Route53.'' @ newline @ toString err)"

definition hostedZoneNotFound :: "string \<Rightarrow> error" where
  "hostedZoneNotFound name =
     Error (''Error: Could not find hosted zone '' @ dquote @ name @ dquote)"

definition getRoute53HostedZoneId :: "plugin \<Rightarrow> 'r aws \<Rightarrow> DomainConfig \<Rightarrow> event list \<times> (error + string)" where
  "getRoute53HostedZoneId p aws domain =
     (if truthy (hostedZoneId domain)
      then ([Log (''Selected specific hostedZoneId ''
                  @ (case customDomain_hostedZoneId p of None \<Rightarrow> ''undefined'' | Some z \<Rightarrow> z))],
            Inr (the (hostedZoneId domain)))
      else (let filtering =
                  (case hostedZonePrivate domain of
                     None \<Rightarrow> []
                   | Some True \<Rightarrow> [Log ''Filtering to only private zones.'']
                   | Some False \<Rightarrow> [Log ''Filtering to only public zones.''])
            in case listHostedZones aws of
                 Inl err \<Rightarrow>
                   (filtering @ [Call ListHostedZones] @ logIfDebug p err (givenDomainName domain),
                    Inl (hostedZoneListFailed err))
               | Inr zones \<Rightarrow>
                   (case targetHostedZone domain zones of
                      Some zone \<Rightarrow>
                        (filtering @ [Call ListHostedZones], Inr (extractHostedZoneId (ZoneId zone)))
                    | None \<Rightarrow>
                        (filtering @ [Call ListHostedZones],
                         Inl (hostedZoneNotFound (givenDomainName domain))))))"

section \<open>The DNS alias records\<close>

definition invalidAction :: "string \<Rightarrow> error" where
  "invalidAction action =
     Error (''Error: Invalid action '' @ dquote @ action @ dquote @ '' when changing Route53 Record.''
            @ newline @ ''                Action must be either UPSERT or DELETE.'' @ newline)"

definition changeFailed :: "string \<Rightarrow> string \<Rightarrow> error" where
  "changeFailed action name =
     Error (''Error: Failed to '' @ action @ '' A Alias for '' @ name @ newline)"

text \<open>One element of \<^verbatim>\<open>["A", "AAAA"].map((Type) => ({...}))\<close>.\<close>

definition aliasChange :: "string \<Rightarrow> DomainConfig \<Rightarrow> DomainInfo \<Rightarrow> string \<Rightarrow> Change" where
  "aliasChange action domain info T =
     \<lparr>Action = action,
      ResourceRecordSet =
        \<lparr>AliasTarget =
           \<lparr>DNSName = domainName info,
            EvaluateTargetHealth = False,
            alias_HostedZoneId = info_hostedZoneId info\<rparr>,
         Name = givenDomainName domain,
         Type = T\<rparr>\<rparr>"

definition changeResourceRecordSet ::
  "plugin \<Rightarrow> 'r aws \<Rightarrow> string \<Rightarrow> DomainConfig \<Rightarrow> event list \<times> (error + unit)" where
  "changeResourceRecordSet p aws action domain =
     (if action \<noteq> ''UPSERT'' \<and> action \<noteq> ''DELETE''
      then ([], Inl (invalidAction action))
      else if createRoute53Record domain \<noteq> None \<and> createRoute53Record domain = Some False
      then ([Log (''Skipping '' @ (if action = ''DELETE'' then ''removal'' else ''creation'')
                  @ '' of Route53 record.'')],
            Inr ())
      else (case getRoute53HostedZoneId p aws domain of
              (ev, Inl err) \<Rightarrow> (ev, Inl err)
            | (ev, Inr route53HostedZoneId) \<Rightarrow>
                (case domainInfo domain of
                   None \<Rightarrow> (ev, Inl (TypeError ''Cannot read property 'domainName' of undefined''))
                 | Some info \<Rightarrow>
                     (let params =
                            \<lparr>ChangeBatch =
                               \<lparr>Changes = map (aliasChange action domain info) [''A'', ''AAAA''],
                                Comment = ''Record created by serverless-domain-manager''\<rparr>,
                             HostedZoneId = route53HostedZoneId\<rparr>
                      in case changeResourceRecordSets aws params of
                           Inl err \<Rightarrow>
                             (ev @ [Call (ChangeResourceRecordSets params)]
                                 @ logIfDebug p err (givenDomainName domain),
                              Inl (changeFailed action (givenDomainName domain)))
                         | Inr u \<Rightarrow>
                             (ev @ [Call (ChangeResourceRecordSets params)], Inr ())))))"

section \<open>Custom domains\<close>

definition fetchFailed :: "string \<Rightarrow> error" where
  "fetchFailed name = Error (''Error: Unable to fetch information about '' @ name)"

definition createCustomDomainFailed :: "string \<Rightarrow> error" where
  "createCustomDomainFailed name =
     Error (''Error: Failed to create custom domain '' @ name @ newline)"

definition unableToCreate :: "string \<Rightarrow> error" where
  "unableToCreate name = Error (''Error: Unable to craete domain '' @ name)"

text \<open>
  A task is one callback of \<^verbatim>\<open>this.domains.map(async (domain) => ...)\<close>: it gives what the
  callback did, the domain as the callback left it, and how its promise settled.
\<close>

type_synonym task = "event list \<times> DomainConfig \<times> (error + unit)"

text \<open>The callback of \<^verbatim>\<open>getDomainInfo\<close>: a lookup that fails with \<^verbatim>\<open>NotFoundException\<close>
  leaves \<^verbatim>\<open>domainInfo\<close> as it was and is no error.\<close>

definition getDomainInfo_task :: "plugin \<Rightarrow> 'r aws \<Rightarrow> DomainConfig \<Rightarrow> task" where
  "getDomainInfo_task p aws domain =
     (case getDomainName aws (givenDomainName domain) of
        Inr raw \<Rightarrow>
          ([Call (GetDomainName (givenDomainName domain))],
           domain\<lparr>domainInfo := Some (newDomainInfo aws raw)\<rparr>,
           Inr ())
      | Inl err \<Rightarrow>
          (Call (GetDomainName (givenDomainName domain)) # logIfDebug p err (givenDomainName domain),
           domain,
           if code err \<noteq> Some ''NotFoundException''
           then Inl (fetchFailed (givenDomainName domain))
           else Inr ()))"

definition createCustomDomain :: "plugin \<Rightarrow> 'r aws \<Rightarrow> DomainConfig \<Rightarrow> task" where
  "createCustomDomain p aws domain =
     (if endpointType domain = EDGE
      then (case createDomainName aws (certificateArn domain) (givenDomainName domain)
                   [endpointType domain] (securityPolicy domain) of
              Inr createdDomain \<Rightarrow>
                ([Call (CreateDomainName (certificateArn domain) (givenDomainName domain)
                          [endpointType domain] (securityPolicy domain))],
                 domain\<lparr>domainInfo := Some (newDomainInfo aws createdDomain)\<rparr>,
                 Inr ())
            | Inl err \<Rightarrow>
                (Call (CreateDomainName (certificateArn domain) (givenDomainName domain)
                         [endpointType domain] (securityPolicy domain))
                   # logIfDebug p err (givenDomainName domain),
                 domain,
                 Inl (createCustomDomainFailed (givenDomainName domain))))
      else (case createDomainNameV2 aws (givenDomainName domain) (certificateArn domain)
                   (endpointType domain) (securityPolicy domain) of
              Inr createdDomain \<Rightarrow>
                ([Call (CreateDomainNameV2 (givenDomainName domain) (certificateArn domain)
                          (endpointType domain) (securityPolicy domain))],
                 domain\<lparr>domainInfo := Some (newDomainInfo aws createdDomain)\<rparr>,
                 Inr ())
            | Inl err \<Rightarrow>
                (Call (CreateDomainNameV2 (givenDomainName domain) (certificateArn domain)
                         (endpointType domain) (securityPolicy domain))
                   # logIfDebug p err (givenDomainName domain),
                 domain,
                 Inl (createCustomDomainFailed (givenDomainName domain)))))"

text \<open>
  The callback of \<^verbatim>\<open>createDomains\<close>, with its \<^verbatim>\<open>try ... catch\<close>. It is \<open>None\<close> when the
  certificate listing never ends.
\<close>

definition createDomains_task :: "plugin \<Rightarrow> 'r aws \<Rightarrow> DomainConfig \<Rightarrow> task option" where
  "createDomains_task p aws domain =
     (case domainInfo domain of
        None \<Rightarrow>
          (case getCertArn p aws domain of
             None \<Rightarrow> None
           | Some (ev1, Inl err) \<Rightarrow>
               Some (ev1 @ logIfDebug p err (givenDomainName domain), domain,
                     Inl (unableToCreate (givenDomainName domain)))
           | Some (ev1, Inr arn) \<Rightarrow>
               (case createCustomDomain p aws (domain\<lparr>certificateArn := Some arn\<rparr>) of
                  (ev2, domain2, Inl err) \<Rightarrow>
                    Some (ev1 @ ev2 @ logIfDebug p err (givenDomainName domain), domain2,
                          Inl (unableToCreate (givenDomainName domain)))
                | (ev2, domain2, Inr u) \<Rightarrow>
                    (case changeResourceRecordSet p aws ''UPSERT'' domain2 of
                       (ev3, Inl err) \<Rightarrow>
                         Some (ev1 @ ev2 @ ev3 @ logIfDebug p err (givenDomainName domain), domain2,
                               Inl (unableToCreate (givenDomainName domain)))
                     | (ev3, Inr u') \<Rightarrow>
                         Some (ev1 @ ev2 @ ev3
                                 @ [Log (''Custom domain '' @ givenDomainName domain @ '' was created.''
                                         @ newline
                                         @ ''                        New domains may take up to 40 minutes to be initialized.'')],
                               domain2, Inr ()))))
      | Some info \<Rightarrow>
          Some ([Log (''Custom domain '' @ givenDomainName domain @ '' already exists.'')],
                domain, Inr ()))"

text \<open>
  \<^verbatim>\<open>createDomains\<close>: the status fetch for every domain, then, unless the fetch was
  rejected, the creation callback for every domain. The tasks of different domains run
  interleaved; the model keeps each task's events apart, in the order of \<^verbatim>\<open>this.domains\<close>.
  \<open>rejection\<close> is the first rejected task in that order.
\<close>

definition rejection :: "task list \<Rightarrow> error option" where
  "rejection ts =
     (case filter (\<lambda>(ev, d, r). isl r) ts of
        [] \<Rightarrow> None
      | (ev, d, r) # rest \<Rightarrow> Some (projl r))"

record createDomainsRun =
  fetched :: "task list"
  created :: "task option list"

definition createDomains :: "plugin \<Rightarrow> 'r aws \<Rightarrow> createDomainsRun" where
  "createDomains p aws =
     (let infoTasks = map (getDomainInfo_task p aws) (domains p)
      in case rejection infoTasks of
           Some err \<Rightarrow> \<lparr>fetched = infoTasks, created = []\<rparr>
         | None \<Rightarrow>
             \<lparr>fetched = infoTasks,
              created = map (\<lambda>(ev, domain, r). createDomains_task p aws domain) infoTasks\<rparr>)"

section \<open>Initialisation and validation\<close>

definition edgeNotCompatible :: "string \<Rightarrow> error" where
  "edgeNotCompatible api = Error (''Error: 'edge' endpointType is not compatible with '' @ api @ '' APIs'')"

definition allowPathMatchingWarning :: "string \<Rightarrow> string" where
  "allowPathMatchingWarning name =
     ''WARNING: '' @ dquote @ ''allowPathMatching'' @ dquote @ '' is set for '' @ name @ ''.'' @ newline
     @ ''                    This should only be used when migrating a path to a different API type. e.g. REST to HTTP.''"

text \<open>\<^verbatim>\<open>validateDomainConfigs\<close>: a \<^verbatim>\<open>forEach\<close> that a \<^verbatim>\<open>throw\<close> leaves at once.\<close>

fun validateDomainConfigs :: "DomainConfig list \<Rightarrow> event list \<times> (error + unit)" where
  "validateDomainConfigs [] = ([], Inr ())"
| "validateDomainConfigs (domain # rest) =
     (let warning = (if allowPathMatching domain
                     then [Log (allowPathMatchingWarning (givenDomainName domain))]
                     else [])
      in if apiType domain = REST
         then (case validateDomainConfigs rest of (ev, r) \<Rightarrow> (warning @ ev, r))
         else if apiType domain = HTTP
         then (if endpointType domain = EDGE
               then (warning, Inl (edgeNotCompatible ''HTTP''))
               else (case validateDomainConfigs rest of (ev, r) \<Rightarrow> (warning @ ev, r)))
         else if apiType domain = WEBSOCKET
         then (if endpointType domain = EDGE
               then (warning, Inl (edgeNotCompatible ''WebSocket''))
               else (case validateDomainConfigs rest of (ev, r) \<Rightarrow> (warning @ ev, r)))
         else (case validateDomainConfigs rest of (ev, r) \<Rightarrow> (warning @ ev, r)))"

text \<open>
  The raw configuration \<^verbatim>\<open>serverless.service.custom.customDomain\<close> is an object: its own
  keys in order, each with its value. What \<^verbatim>\<open>new DomainConfig(...)\<close> is given is either
  the value under an API-type key (after its \<^verbatim>\<open>apiType\<close> was set to the key) or the object
  as a whole. The constructor itself is the parameter \<open>newDomainConfig\<close>; it may throw.
\<close>

datatype 'c rawConfig =
    PerApiType string 'c
  | Whole "(string \<times> 'c) list"

text \<open>The \<^verbatim>\<open>for (const configApiType in customDomain)\<close> loop.\<close>

fun perApiType_loop ::
  "('c rawConfig \<Rightarrow> error + DomainConfig) \<Rightarrow> (string \<times> 'c) list \<Rightarrow> DomainConfig list \<Rightarrow>
   error + DomainConfig list" where
  "perApiType_loop newDomainConfig [] acc = Inr acc"
| "perApiType_loop newDomainConfig ((configApiType, v) # rest) acc =
     (if apiTypes configApiType \<noteq> None
      then (case newDomainConfig (PerApiType configApiType v) of
              Inl err \<Rightarrow> Inl err
            | Inr dc \<Rightarrow> perApiType_loop newDomainConfig rest (acc @ [dc]))
      else Inl (Error (''Error: Invalud API Type, '' @ configApiType)))"

text \<open>The part of \<^verbatim>\<open>initializeVariables\<close> that fills \<^verbatim>\<open>this.domains\<close>, before the filter.\<close>

definition initializeVariables_domains ::
  "('c rawConfig \<Rightarrow> error + DomainConfig) \<Rightarrow> (string \<times> 'c) list \<Rightarrow> error + DomainConfig list" where
  "initializeVariables_domains newDomainConfig customDomain =
     (if (case customDomain of [] \<Rightarrow> False | (key, v) # rest \<Rightarrow> apiTypes key \<noteq> None)
      then perApiType_loop newDomainConfig customDomain []
      else (case newDomainConfig (Whole customDomain) of
              Inl err \<Rightarrow> Inl err
            | Inr dc \<Rightarrow> Inr [dc]))"

text \<open>One round of \<^verbatim>\<open>for (const dc of this.domains)\<close>: it sets \<^verbatim>\<open>this.acmRegion\<close> and replaces
  the client \<^verbatim>\<open>this.acm\<close>.\<close>

definition setAcmRegion :: "plugin \<Rightarrow> DomainConfig \<Rightarrow> plugin" where
  "setAcmRegion p dc =
     p\<lparr>acmRegion := Some (if endpointType dc = REGIONAL then getRegion p else ''us-east-1'')\<rparr>"

definition initializeVariables ::
  "('c rawConfig \<Rightarrow> error + DomainConfig) \<Rightarrow> (string \<times> 'c) list option \<Rightarrow> plugin \<Rightarrow>
   event list \<times> (error + plugin)" where
  "initializeVariables newDomainConfig customDomain p =
     (case customDomain of
        None \<Rightarrow> ([], Inl (Error ''serverless-domain-manager: Plugin configuration is missing.''))
      | Some cd \<Rightarrow>
          (case initializeVariables_domains newDomainConfig cd of
             Inl err \<Rightarrow> ([], Inl err)
           | Inr built \<Rightarrow>
               (let p1 = p\<lparr>domains := filter enabled built\<rparr>;
                    p2 = foldl setAcmRegion p1 (domains p1)
                in case validateDomainConfigs (domains p2) of
                     (ev, Inl err) \<Rightarrow> (ev, Inl err)
                   | (ev, Inr u) \<Rightarrow> (ev, Inr p2))))"

text \<open>
  \<^verbatim>\<open>hookWrapper\<close>: every lifecycle function runs behind \<^verbatim>\<open>initializeVariables\<close>. The
  result is \<open>Inl\<close> when initialisation threw (the lifecycle function was not called) and
  \<open>Inr\<close> of what the lifecycle function gave otherwise.
\<close>

definition hookWrapper ::
  "('c rawConfig \<Rightarrow> error + DomainConfig) \<Rightarrow> (string \<times> 'c) list option \<Rightarrow> plugin \<Rightarrow>
   (plugin \<Rightarrow> 'o) \<Rightarrow> event list \<times> (error + 'o)" where
  "hookWrapper newDomainConfig customDomain p lifecycleFunc =
     (case initializeVariables newDomainConfig customDomain p of
        (ev, Inl err) \<Rightarrow> (ev, Inl err)
      | (ev, Inr p') \<Rightarrow> (ev, Inr (lifecycleFunc p')))"

text \<open>
  \<^verbatim>\<open>initializeVariables\<close> of \<^verbatim>\<open>index.ts\<close>: one round per key of the configuration. A key
  that names an API type (in any case) gives \<^verbatim>\<open>new DomainConfig(customDomain[key], key)\<close>,
  any other key \<^verbatim>\<open>new DomainConfig(customDomain, customDomain.apiType)\<close>; the region and
  the client are set in the same round, and the domain is appended to \<^verbatim>\<open>this.domains\<close>.
  There is no filter and no validation.
\<close>

fun initializeVariables_ts_loop ::
  "('c rawConfig \<Rightarrow> error + DomainConfig) \<Rightarrow> (string \<times> 'c) list \<Rightarrow> (string \<times> 'c) list \<Rightarrow>
   plugin \<Rightarrow> error + plugin" where
  "initializeVariables_ts_loop newDomainConfig customDomain [] p = Inr p"
| "initializeVariables_ts_loop newDomainConfig customDomain ((key, v) # rest) p =
     (case (if apiTypes (toLowerCase key) \<noteq> None
            then newDomainConfig (PerApiType key v)
            else newDomainConfig (Whole customDomain)) of
        Inl err \<Rightarrow> Inl err
      | Inr dc \<Rightarrow>
          initializeVariables_ts_loop newDomainConfig customDomain rest
            ((setAcmRegion p dc)\<lparr>domains := domains p @ [dc]\<rparr>))"

definition initializeVariables_ts ::
  "('c rawConfig \<Rightarrow> error + DomainConfig) \<Rightarrow> (string \<times> 'c) list \<Rightarrow> plugin \<Rightarrow> error + plugin" where
  "initializeVariables_ts newDomainConfig customDomain p =
     initializeVariables_ts_loop newDomainConfig customDomain customDomain p"

text \<open>\<^verbatim>\<open>hookWrapper\<close> of \<^verbatim>\<open>index.ts\<close>: the check that the configuration exists is here.\<close>

definition hookWrapper_ts ::
  "('c rawConfig \<Rightarrow> error + DomainConfig) \<Rightarrow> (string \<times> 'c) list option \<Rightarrow> plugin \<Rightarrow>
   (plugin \<Rightarrow> 'o) \<Rightarrow> event list \<times> (error + 'o)" where
  "hookWrapper_ts newDomainConfig customDomain p lifecycleFunc =
     (case customDomain of
        None \<Rightarrow> ([], Inl (Error ''serverless-domain-manager: Plugin configuration is missing.''))
      | Some cd \<Rightarrow>
          (case initializeVariables_ts newDomainConfig cd p of
             Inl err \<Rightarrow> ([], Inl err)
           | Inr p' \<Rightarrow> ([], Inr (lifecycleFunc p'))))"

section \<open>Observations on a run and the stated rules\<close>

text \<open>The change batches a run submitted, in order.\<close>

fun changeBatches :: "event list \<Rightarrow> ChangeResourceRecordSetsRequest list" where
  "changeBatches [] = []"
| "changeBatches (Call (ChangeResourceRecordSets params) # ev) = params # changeBatches ev"
| "changeBatches (e # ev) = changeBatches ev"

text \<open>The lines that \<^verbatim>\<open>logIfDebug\<close> writes carry the entity label; \<open>quiet\<close> drops them
  from a run, and \<open>withoutDebug\<close> is the same plugin run without \<^verbatim>\<open>SLS_DEBUG\<close>.\<close>

definition isDebugLine :: "event \<Rightarrow> bool" where
  "isDebugLine e = (case e of LogEntity m l \<Rightarrow> True | _ \<Rightarrow> False)"

definition quiet :: "event list \<Rightarrow> event list" where
  "quiet ev = filter (\<lambda>e. \<not> isDebugLine e) ev"

definition withoutDebug :: "plugin \<Rightarrow> plugin" where
  "withoutDebug p = p\<lparr>SLS_DEBUG := None\<rparr>"

text \<open>
  A certificate store serves the pages \<open>pages\<close> from \<open>token\<close> on: each page but the last
  carries the token of the next one, and the last carries none.
\<close>

fun servesPages ::
  "(string option \<Rightarrow> error + ListCertificatesResponse) \<Rightarrow> string option \<Rightarrow>
   ListCertificatesResponse list \<Rightarrow> bool" where
  "servesPages acm token [] = False"
| "servesPages acm token [page] = (acm token = Inr page \<and> \<not> truthy (NextToken page))"
| "servesPages acm token (page # next # rest) =
     (acm token = Inr page \<and> truthy (NextToken page)
      \<and> servesPages acm (NextToken page) (next # rest))"

text \<open>
  The matching rule as the specification words it, with the two points the code forces:
  the stripped name keeps the dot of \<^verbatim>\<open>*.\<close>, and a candidate whose stripped name is empty
  is never kept. Among the candidates kept, the first one of the greatest stripped-name
  length is taken.
\<close>

definition strippedLength :: "CertificateSummary \<Rightarrow> nat" where
  "strippedLength certificate = length (stripWildcard (DomainName certificate))"

definition spec_candidates :: "string \<Rightarrow> CertificateSummary list \<Rightarrow> CertificateSummary list" where
  "spec_candidates name certificates =
     filter (\<lambda>c. stripWildcard (DomainName c) \<noteq> []
                 \<and> includes_str name (stripWildcard (DomainName c)))
            certificates"

definition spec_greatestLength :: "CertificateSummary list \<Rightarrow> nat" where
  "spec_greatestLength candidates = foldr max (map strippedLength candidates) 0"

definition spec_firstLongest :: "CertificateSummary list \<Rightarrow> CertificateSummary option" where
  "spec_firstLongest candidates =
     find (\<lambda>c. strippedLength c = spec_greatestLength candidates) candidates"

text \<open>The value of \<^verbatim>\<open>nameLength\<close> after the \<^verbatim>\<open>forEach\<close>, started at \<open>n\<close>.\<close>

definition contained :: "string \<Rightarrow> CertificateSummary \<Rightarrow> bool" where
  "contained name c = includes_str name (stripWildcard (DomainName c))"

fun runningLength :: "string \<Rightarrow> nat \<Rightarrow> CertificateSummary list \<Rightarrow> nat" where
  "runningLength name n [] = n"
| "runningLength name n (c # cs) =
     runningLength name (if contained name c then max n (strippedLength c) else n) cs"

text \<open>"The substring that follows the first occurrence of the delimiter": \<open>None\<close> when
  the delimiter does not occur.\<close>

fun spec_textAfter :: "string \<Rightarrow> string \<Rightarrow> string option" where
  "spec_textAfter delimiter [] = (if delimiter = [] then Some [] else None)"
| "spec_textAfter delimiter (c # cs) =
     (if prefix delimiter (c # cs) then Some (drop (length delimiter) (c # cs))
      else spec_textAfter delimiter cs)"

section \<open>Worked configurations\<close>

text \<open>A domain configuration with every optional field unset, and a plugin in region
  \<^verbatim>\<open>eu-west-1\<close> without \<^verbatim>\<open>SLS_DEBUG\<close>.\<close>

definition config :: "string \<Rightarrow> apiType \<Rightarrow> endpointType \<Rightarrow> DomainConfig" where
  "config name api endpoint =
     \<lparr>givenDomainName = name, apiType = api, endpointType = endpoint,
      securityPolicy = ''TLS_1_2'', certificateArn = None, certificateName = None,
      hostedZoneId = None, hostedZonePrivate = None, createRoute53Record = None,
      enabled = True, allowPathMatching = False, domainInfo = None\<rparr>"

definition pluginWith :: "string option \<Rightarrow> DomainConfig list \<Rightarrow> plugin" where
  "pluginWith acm ds =
     \<lparr>getRegion = ''eu-west-1'', SLS_DEBUG = None, customDomain_hostedZoneId = None,
      acmRegion = acm, domains = ds\<rparr>"

definition distribution :: DomainInfo where
  "distribution = \<lparr>domainName = ''d-1234.execute-api.eu-west-1.amazonaws.com'',
                   info_hostedZoneId = ''ZLY8HYME6SFDD''\<rparr>"

text \<open>A provider that knows the custom domain \<^verbatim>\<open>api.example.com\<close> only, answers the
  certificate and zone listings as given, and accepts every change.\<close>

definition cloud ::
  "(string \<Rightarrow> string option \<Rightarrow> error + ListCertificatesResponse) \<Rightarrow> (error + HostedZone list) \<Rightarrow>
   DomainInfo aws" where
  "cloud certs zones =
     \<lparr>getDomainName = (\<lambda>name. if name = ''api.example.com'' then Inr distribution
                               else Inl (AwsError ''NotFoundException'' ''Invalid domain name identifier specified'')),
      createDomainName = (\<lambda>arn name types policy. Inr distribution),
      createDomainNameV2 = (\<lambda>name arn endpoint policy. Inr distribution),
      listCertificates = certs,
      listHostedZones = zones,
      changeResourceRecordSets = (\<lambda>params. Inr ()),
      newDomainInfo = (\<lambda>raw. raw)\<rparr>"

definition noCertificates :: "string \<Rightarrow> string option \<Rightarrow> error + ListCertificatesResponse" where
  "noCertificates r t = Inr \<lparr>CertificateSummaryList = [], NextToken = None\<rparr>"

text \<open>Certificate stores: the two candidates of the worked example on one page; a
  store of two pages; a store with one wildcard certificate in every region; a store
  that refuses the listing.\<close>

definition twoCandidates :: "string \<Rightarrow> string option \<Rightarrow> error + ListCertificatesResponse" where
  "twoCandidates r token =
     Inr \<lparr>CertificateSummaryList =
            [\<lparr>CertificateArn = ''arn:aws:acm:eu-west-1:111122223333:certificate/example-com'',
              DomainName = ''*.example.com''\<rparr>,
             \<lparr>CertificateArn = ''arn:aws:acm:eu-west-1:111122223333:certificate/api-example-com'',
              DomainName = ''*.api.example.com''\<rparr>],
          NextToken = None\<rparr>"

definition twoPages :: "string \<Rightarrow> string option \<Rightarrow> error + ListCertificatesResponse" where
  "twoPages r token =
     (if token = None
      then Inr \<lparr>CertificateSummaryList =
                 [\<lparr>CertificateArn = ''arn:aws:acm:eu-west-1:111122223333:certificate/first'',
                   DomainName = ''*.example.org''\<rparr>],
               NextToken = Some ''page-2''\<rparr>
      else Inr \<lparr>CertificateSummaryList =
                 [\<lparr>CertificateArn = ''arn:aws:acm:eu-west-1:111122223333:certificate/second'',
                   DomainName = ''*.example.com''\<rparr>],
               NextToken = None\<rparr>)"

definition byRegion :: "string \<Rightarrow> string option \<Rightarrow> error + ListCertificatesResponse" where
  "byRegion r token =
     Inr \<lparr>CertificateSummaryList =
            [\<lparr>CertificateArn = ''arn:aws:acm:'' @ r @ '':111122223333:certificate/wildcard'',
              DomainName = ''*.example.com''\<rparr>],
          NextToken = None\<rparr>"

definition denied :: "string \<Rightarrow> string option \<Rightarrow> error + ListCertificatesResponse" where
  "denied r token =
     Inl (AwsError ''AccessDeniedException''
            ''User deploy is not authorized to perform acm:ListCertificates'')"

text \<open>Two public zones, and a \<^verbatim>\<open>DomainConfig\<close> constructor that takes the configuration
  as it is given.\<close>

definition exampleZones :: "HostedZone list" where
  "exampleZones =
     [\<lparr>ZoneId = ''/hostedzone/Z111'', ZoneName = ''example.com.'', PrivateZone = False\<rparr>,
      \<lparr>ZoneId = ''/hostedzone/ABC123'', ZoneName = ''bar.example.com.'', PrivateZone = False\<rparr>]"

definition plainConstructor :: "DomainConfig rawConfig \<Rightarrow> error + DomainConfig" where
  "plainConstructor raw =
     (case raw of
        PerApiType key c \<Rightarrow> Inr c
      | Whole kvs \<Rightarrow>
          (case kvs of
             [] \<Rightarrow> Inl (Error ''domainName is required'')
           | (key, c) # rest \<Rightarrow> Inr c))"

section \<open>The status fetch and the creation callback\<close>

lemma rejection_None_iff: "rejection ts = None \<longleftrightarrow> (\<forall>t \<in> set ts. \<not> isl (snd (snd t)))"
proof -
  have "rejection ts = None \<longleftrightarrow> filter (\<lambda>(ev, d, r). isl r) ts = []"
    by (simp add: rejection_def split: list.splits prod.splits)
  also have "\<dots> \<longleftrightarrow> (\<forall>t \<in> set ts. \<not> isl (snd (snd t)))"
    by (auto simp: filter_empty_conv)
  finally show ?thesis .
qed

lemma getDomainInfo_task_found:
  assumes "getDomainName aws (givenDomainName d) = Inr raw"
  shows "getDomainInfo_task p aws d =
           ([Call (GetDomainName (givenDomainName d))],
            d\<lparr>domainInfo := Some (newDomainInfo aws raw)\<rparr>, Inr ())"
  using assms by (simp add: getDomainInfo_task_def)

lemma createDomains_task_existing:
  assumes "domainInfo d = Some info"
  shows "createDomains_task p aws d =
           Some ([Log (''Custom domain '' @ givenDomainName d @ '' already exists.'')], d, Inr ())"
  using assms by (simp add: createDomains_task_def)

lemma fetched_createDomains:
  "fetched (createDomains p aws) = map (getDomainInfo_task p aws) (domains p)"
  by (simp add: createDomains_def Let_def split: option.splits)

lemma created_createDomains:
  "created (createDomains p aws) =
     (if rejection (fetched (createDomains p aws)) = None
      then map (\<lambda>d. createDomains_task p aws (fst (snd (getDomainInfo_task p aws d)))) (domains p)
      else [])"
  by (auto simp add: createDomains_def Let_def case_prod_beta comp_def split: option.splits)

text \<open>
  C4. A domain whose lookup succeeds is seen as existing by \<^verbatim>\<open>createDomains\<close>: the status
  fetch makes the one call \<^verbatim>\<open>getDomainName\<close> for it and fills \<^verbatim>\<open>domainInfo\<close>; the creation
  callback then does nothing but write "already exists" (no certificate listing, no
  creation call, no record change), and leaves the domain as the fetch left it. When the
  fetch of some domain of the batch is rejected, \<^verbatim>\<open>createDomains\<close> stops before the creation
  callbacks, so nothing more is done for the domain at all.
\<close>

theorem createDomains_existing_domain:
  assumes i: "i < length (domains p)"
      and found: "getDomainName aws (givenDomainName (domains p ! i)) = Inr raw"
  shows "fetched (createDomains p aws) ! i =
           ([Call (GetDomainName (givenDomainName (domains p ! i)))],
            (domains p ! i)\<lparr>domainInfo := Some (newDomainInfo aws raw)\<rparr>, Inr ())
       \<and> (if rejection (fetched (createDomains p aws)) = None
          then created (createDomains p aws) ! i =
                 Some ([Log (''Custom domain '' @ givenDomainName (domains p ! i) @ '' already exists.'')],
                       (domains p ! i)\<lparr>domainInfo := Some (newDomainInfo aws raw)\<rparr>, Inr ())
          else created (createDomains p aws) = [])"
proof -
  have t: "getDomainInfo_task p aws (domains p ! i) =
           ([Call (GetDomainName (givenDomainName (domains p ! i)))],
            (domains p ! i)\<lparr>domainInfo := Some (newDomainInfo aws raw)\<rparr>, Inr ())"
    by (rule getDomainInfo_task_found[OF found])
  have f: "fetched (createDomains p aws) ! i = getDomainInfo_task p aws (domains p ! i)"
    using i by (simp add: fetched_createDomains)
  have c: "rejection (fetched (createDomains p aws)) = None \<Longrightarrow>
        created (createDomains p aws) ! i
          = createDomains_task p aws (fst (snd (getDomainInfo_task p aws (domains p ! i))))"
    using i by (simp add: created_createDomains)
  have e: "rejection (fetched (createDomains p aws)) \<noteq> None \<Longrightarrow> created (createDomains p aws) = []"
    by (subst created_createDomains) auto
  show ?thesis
    using f c e by (simp add: t createDomains_task_existing)
qed

theorem createDomains_existing_domain_witness:
  "0 < length (domains (pluginWith None [config ''api.example.com'' REST EDGE]))
   \<and> getDomainName (cloud noCertificates (Inr []))
         (givenDomainName (domains (pluginWith None [config ''api.example.com'' REST EDGE]) ! 0))
       = Inr distribution
   \<and> fetched (createDomains (pluginWith None [config ''api.example.com'' REST EDGE])
                 (cloud noCertificates (Inr []))) ! 0
       = ([Call (GetDomainName ''api.example.com'')],
          (config ''api.example.com'' REST EDGE)\<lparr>domainInfo := Some distribution\<rparr>, Inr ())
   \<and> created (createDomains (pluginWith None [config ''api.example.com'' REST EDGE])
                 (cloud noCertificates (Inr []))) ! 0
       = Some ([Log ''Custom domain api.example.com already exists.''],
               (config ''api.example.com'' REST EDGE)\<lparr>domainInfo := Some distribution\<rparr>, Inr ())"
proof -
  let ?p = "pluginWith None [config ''api.example.com'' REST EDGE]"
  let ?aws = "cloud noCertificates (Inr [])"
  have h1: "0 < length (domains ?p)" by (simp add: pluginWith_def)
  have h2: "getDomainName ?aws (givenDomainName (domains ?p ! 0)) = Inr distribution"
    by (simp add: pluginWith_def cloud_def config_def)
  have d: "domains ?p ! 0 = config ''api.example.com'' REST EDGE" by (simp add: pluginWith_def)
  have n: "givenDomainName (config ''api.example.com'' REST EDGE) = ''api.example.com''"
    by (simp add: config_def)
  have nd: "newDomainInfo ?aws distribution = distribution" by (simp add: cloud_def)
  have rej: "rejection (fetched (createDomains ?p ?aws)) = None"
    using h2 by (simp add: fetched_createDomains rejection_def getDomainInfo_task_def pluginWith_def)
  from createDomains_existing_domain[OF h1 h2] rej h1 h2 show ?thesis
    by (simp add: d n nd)
qed

section \<open>The action check of the record change\<close>

text \<open>
  C10. With an action other than \<^verbatim>\<open>UPSERT\<close> and \<^verbatim>\<open>DELETE\<close>, \<^verbatim>\<open>changeResourceRecordSet\<close>
  throws the invalid-action error at once: the run has no event (nothing is logged, no
  remote call is made) and the outcome is the same for every plugin state, provider and
  domain, so neither \<^verbatim>\<open>createRoute53Record\<close> nor the hosted zones were looked at. The
  function writes no field of the domain on any path, which is why it returns none.
\<close>

theorem changeResourceRecordSet_invalid_action:
  assumes "action \<noteq> ''UPSERT''" and "action \<noteq> ''DELETE''"
  shows "changeResourceRecordSet p aws action domain = ([], Inl (invalidAction action))"
  using assms by (simp add: changeResourceRecordSet_def)

theorem changeResourceRecordSet_invalid_action_witness:
  "''CREATE'' \<noteq> ''UPSERT'' \<and> ''CREATE'' \<noteq> ''DELETE''
   \<and> changeResourceRecordSet (pluginWith None []) (cloud noCertificates (Inr [])) ''CREATE''
        (config ''api.example.com'' REST EDGE)
      = ([], Inl (invalidAction ''CREATE''))"
  using changeResourceRecordSet_invalid_action
          [of "''CREATE''" "pluginWith None []" "cloud noCertificates (Inr [])"
              "config ''api.example.com'' REST EDGE"]
  by simp

section \<open>Certificate selection\<close>

lemma forEach_certificate_eq:
  "forEach_certificate name (n, a) c =
     (if contained name c \<and> strippedLength c > n
      then (strippedLength c, Some (CertificateArn c))
      else (n, a))"
  by (simp add: forEach_certificate_def contained_def strippedLength_def Let_def)

lemma runningLength_ge: "n \<le> runningLength name n cs"
proof (induction cs arbitrary: n)
  case Nil
  show ?case by simp
next
  case (Cons c cs)
  have "n \<le> (if contained name c then max n (strippedLength c) else n)" by simp
  also have "\<dots> \<le> runningLength name (if contained name c then max n (strippedLength c) else n) cs"
    by (rule Cons.IH)
  finally show ?case by simp
qed

text \<open>The loop keeps the greatest length seen and the ARN of the first certificate that
  reached it.\<close>

lemma foldl_forEach_certificate:
  "foldl (forEach_certificate name) (n, a) cs =
     (runningLength name n cs,
      if runningLength name n cs > n
      then map_option CertificateArn
             (find (\<lambda>c. contained name c \<and> strippedLength c = runningLength name n cs) cs)
      else a)"
proof (induction cs arbitrary: n a)
  case Nil
  show ?case by simp
next
  case (Cons c cs)
  show ?case
  proof (cases "contained name c \<and> strippedLength c > n")
    case True
    then have m: "max n (strippedLength c) = strippedLength c" by simp
    have g: "runningLength name n (c # cs) = runningLength name (strippedLength c) cs"
      using True by (simp add: m)
    have ge: "strippedLength c \<le> runningLength name (strippedLength c) cs"
      by (rule runningLength_ge)
    show ?thesis
    proof (cases "runningLength name (strippedLength c) cs > strippedLength c")
      case gt: True
      then have "runningLength name (strippedLength c) cs > n" using True by simp
      then show ?thesis using True gt
        by (simp add: forEach_certificate_eq Cons.IH g del: runningLength.simps)
    next
      case False
      with ge have e: "runningLength name (strippedLength c) cs = strippedLength c" by simp
      show ?thesis using True
        by (simp add: forEach_certificate_eq Cons.IH g e del: runningLength.simps)
    qed
  next
    case False
    then have g: "runningLength name n (c # cs) = runningLength name n cs"
      by (auto simp: max_def)
    have "contained name c \<and> strippedLength c = runningLength name n cs
            \<Longrightarrow> \<not> runningLength name n cs > n"
      using False by auto
    then show ?thesis using False
      by (auto simp add: forEach_certificate_eq Cons.IH g simp del: runningLength.simps)
  qed
qed

lemma runningLength_attained:
  "runningLength name n cs > n \<Longrightarrow>
     \<exists>c \<in> set cs. contained name c \<and> strippedLength c = runningLength name n cs"
proof (induction cs arbitrary: n)
  case Nil
  then show ?case by simp
next
  case (Cons c cs)
  let ?n1 = "if contained name c then max n (strippedLength c) else n"
  show ?case
  proof (cases "runningLength name ?n1 cs > ?n1")
    case True
    from Cons.IH[OF True] show ?thesis by auto
  next
    case False
    with runningLength_ge[of ?n1 name cs] have e: "runningLength name ?n1 cs = ?n1" by simp
    with Cons.prems have gt: "?n1 > n" by simp
    then have i: "contained name c" by (simp split: if_splits)
    with gt have "strippedLength c = max n (strippedLength c)"
      by (simp add: max_def split: if_splits)
    moreover have "runningLength name n (c # cs) = max n (strippedLength c)" using e i by simp
    ultimately have "strippedLength c = runningLength name n (c # cs)" by simp
    with i show ?thesis by (intro bexI[of _ c] conjI) (simp_all del: runningLength.simps)
  qed
qed

lemma runningLength_spec:
  "runningLength name n cs = max n (spec_greatestLength (spec_candidates name cs))"
proof (induction cs arbitrary: n)
  case Nil
  show ?case by (simp add: spec_greatestLength_def spec_candidates_def)
next
  case (Cons c cs)
  have z: "stripWildcard (DomainName c) = [] \<Longrightarrow> strippedLength c = 0"
    by (simp add: strippedLength_def)
  show ?case
    using z
    by (auto simp add: Cons.IH spec_greatestLength_def spec_candidates_def contained_def max_def)
qed

lemma find_filter: "find P (filter Q xs) = find (\<lambda>x. Q x \<and> P x) xs"
  by (induction xs) auto

lemma strippedLength_le_greatest:
  "x \<in> set xs \<Longrightarrow> strippedLength x \<le> spec_greatestLength xs"
  unfolding spec_greatestLength_def by (induction xs) auto

lemma getCertArn_select_spec:
  assumes "certificateName domain = None"
  shows "getCertArn_select domain certificates =
           (case spec_firstLongest (spec_candidates (givenDomainName domain) certificates) of
              None \<Rightarrow> Inl (certNotFound (givenDomainName domain))
            | Some c \<Rightarrow> Inr (CertificateArn c))"
proof -
  let ?name = "givenDomainName domain"
  let ?G = "runningLength ?name 0 certificates"
  have G: "?G = spec_greatestLength (spec_candidates ?name certificates)"
    by (simp add: runningLength_spec)
  have f: "spec_firstLongest (spec_candidates ?name certificates)
             = find (\<lambda>c. (stripWildcard (DomainName c) \<noteq> [] \<and> contained ?name c)
                          \<and> strippedLength c = ?G) certificates"
    by (simp add: spec_firstLongest_def G[symmetric])
       (simp add: spec_candidates_def find_filter contained_def)
  show ?thesis
  proof (cases "?G > 0")
    case True
    have "(\<lambda>c. (stripWildcard (DomainName c) \<noteq> [] \<and> contained ?name c) \<and> strippedLength c = ?G)
            = (\<lambda>c. contained ?name c \<and> strippedLength c = ?G)"
      using True by (auto simp: strippedLength_def)
    with f have f': "spec_firstLongest (spec_candidates ?name certificates)
             = find (\<lambda>c. contained ?name c \<and> strippedLength c = ?G) certificates" by simp
    from runningLength_attained[OF True]
    have "find (\<lambda>c. contained ?name c \<and> strippedLength c = ?G) certificates \<noteq> None"
      by (simp add: find_None_iff) blast
    then obtain c where
      "find (\<lambda>c. contained ?name c \<and> strippedLength c = ?G) certificates = Some c"
      by auto
    then show ?thesis using True assms
      by (simp add: getCertArn_select_def foldl_forEach_certificate f')
  next
    case False
    then have z: "?G = 0" by simp
    have "spec_candidates ?name certificates = []"
    proof (rule ccontr)
      assume "spec_candidates ?name certificates \<noteq> []"
      then obtain c where c: "c \<in> set (spec_candidates ?name certificates)"
        by (cases "spec_candidates ?name certificates") auto
      then have "stripWildcard (DomainName c) \<noteq> []" by (simp add: spec_candidates_def)
      moreover from strippedLength_le_greatest[OF c] G z have "strippedLength c = 0" by simp
      ultimately show False by (simp add: strippedLength_def)
    qed
    then show ?thesis using z assms
      by (simp add: getCertArn_select_def foldl_forEach_certificate spec_firstLongest_def)
  qed
qed

text \<open>The same selection in \<^verbatim>\<open>index.ts\<close>, on the one page it reads.\<close>

lemma getCertArn_ts_longest_match:
  assumes "\<not> truthy (certificateArn domain)"
      and "certificateName domain = None"
      and "acmRegion p = Some r"
      and "listCertificates aws r None = Inr certData"
  shows "getCertArn_ts p aws domain =
           ([Call (ListCertificates r None)],
            case spec_firstLongest
                   (spec_candidates (givenDomainName domain) (CertificateSummaryList certData)) of
              None \<Rightarrow> Inl (certNotFound (givenDomainName domain))
            | Some c \<Rightarrow> Inr (CertificateArn c))"
  using assms by (simp add: getCertArn_ts_def getCertArn_select_spec)

text \<open>
  C1 (as amended). With no \<^verbatim>\<open>certificateArn\<close> and no \<^verbatim>\<open>certificateName\<close>, and the listing
  read, certificate resolution takes the leading \<^verbatim>\<open>*\<close> (that character only) off each
  candidate's name, keeps a candidate exactly when the stripped name is not empty and
  occurs in the requested domain name, and returns the ARN of the first candidate of the
  greatest stripped-name length; when no candidate is kept it fails with "could not find
  the certificate".
\<close>

theorem getCertArn_longest_match:
  assumes "\<not> truthy (certificateArn domain)"
      and "certificateName domain = None"
      and "acmRegion p = Some r"
      and "listCertificates_loop (listCertificates aws r) [] None [] = Some (asked, Inr certificates)"
  shows "getCertArn p aws domain =
           Some (map (\<lambda>t. Call (ListCertificates r t)) asked,
                 case spec_firstLongest (spec_candidates (givenDomainName domain) certificates) of
                   None \<Rightarrow> Inl (certNotFound (givenDomainName domain))
                 | Some c \<Rightarrow> Inr (CertificateArn c))"
  using assms by (simp add: getCertArn_def getCertArn_select_spec)

theorem getCertArn_longest_match_witness:
  "\<not> truthy (certificateArn (config ''v1.api.example.com'' REST REGIONAL))
   \<and> certificateName (config ''v1.api.example.com'' REST REGIONAL) = None
   \<and> acmRegion (pluginWith (Some ''eu-west-1'') []) = Some ''eu-west-1''
   \<and> getCertArn (pluginWith (Some ''eu-west-1'') []) (cloud twoCandidates (Inr []))
        (config ''v1.api.example.com'' REST REGIONAL)
      = Some ([Call (ListCertificates ''eu-west-1'' None)],
              Inr ''arn:aws:acm:eu-west-1:111122223333:certificate/api-example-com'')"
proof -
  let ?d = "config ''v1.api.example.com'' REST REGIONAL"
  let ?p = "pluginWith (Some ''eu-west-1'') []"
  let ?aws = "cloud twoCandidates (Inr [])"
  let ?certs = "[\<lparr>CertificateArn = ''arn:aws:acm:eu-west-1:111122223333:certificate/example-com'',
              DomainName = ''*.example.com''\<rparr>,
             \<lparr>CertificateArn = ''arn:aws:acm:eu-west-1:111122223333:certificate/api-example-com'',
              DomainName = ''*.api.example.com''\<rparr>]"
  have h1: "\<not> truthy (certificateArn ?d)" by (simp add: config_def truthy_def)
  have h2: "certificateName ?d = None" by (simp add: config_def)
  have h3: "acmRegion ?p = Some ''eu-west-1''" by (simp add: pluginWith_def)
  have h4: "listCertificates_loop (listCertificates ?aws ''eu-west-1'') [] None []
              = Some ([None], Inr ?certs)"
    by (simp add: listCertificates_loop.simps cloud_def twoCandidates_def truthy_def)
  have n: "givenDomainName ?d = ''v1.api.example.com''" by (simp add: config_def)
  have c: "spec_candidates ''v1.api.example.com'' ?certs = ?certs"
    by (simp add: spec_candidates_def stripWildcard_def)
  have g: "spec_greatestLength ?certs = 16"
    by (simp add: spec_greatestLength_def strippedLength_def stripWildcard_def)
  have s: "spec_firstLongest ?certs
             = Some \<lparr>CertificateArn = ''arn:aws:acm:eu-west-1:111122223333:certificate/api-example-com'',
                     DomainName = ''*.api.example.com''\<rparr>"
    by (simp add: spec_firstLongest_def g) (simp add: strippedLength_def stripWildcard_def)
  from getCertArn_longest_match[OF h1 h2 h3 h4] h1 h2 h3 show ?thesis
    by (simp add: n c s)
qed

text \<open>
  The example of the specification (section 8), requested domain \<^verbatim>\<open>api.example.com\<close>
  with the candidates \<^verbatim>\<open>*.example.com\<close> and \<^verbatim>\<open>*.api.example.com\<close>: the second name stripped
  is \<^verbatim>\<open>.api.example.com\<close>, which does not occur in \<^verbatim>\<open>api.example.com\<close>, and both
  \<^verbatim>\<open>index.ts\<close> and the compiled build return the certificate of \<^verbatim>\<open>*.example.com\<close>.
\<close>

theorem getCertArn_example_counterexample:
  "\<not> includes_str ''api.example.com'' (stripWildcard ''*.api.example.com'')
   \<and> getCertArn (pluginWith (Some ''eu-west-1'') []) (cloud twoCandidates (Inr []))
        (config ''api.example.com'' REST REGIONAL)
      = Some ([Call (ListCertificates ''eu-west-1'' None)],
              Inr ''arn:aws:acm:eu-west-1:111122223333:certificate/example-com'')
   \<and> getCertArn_ts (pluginWith (Some ''eu-west-1'') []) (cloud twoCandidates (Inr []))
        (config ''api.example.com'' REST REGIONAL)
      = ([Call (ListCertificates ''eu-west-1'' None)],
         Inr ''arn:aws:acm:eu-west-1:111122223333:certificate/example-com'')"
  by (simp add: getCertArn_def getCertArn_ts_def pluginWith_def cloud_def config_def
        twoCandidates_def truthy_def listCertificates_loop.simps getCertArn_select_def
        forEach_certificate_def stripWildcard_def)

text \<open>A candidate whose stripped name is empty occurs in every name and is never taken.\<close>

lemma getCertArn_select_bare_wildcard:
  "includes_str ''api.example.com'' (stripWildcard ''*'')
   \<and> getCertArn_select (config ''api.example.com'' REST REGIONAL)
        [\<lparr>CertificateArn = ''arn:aws:acm:eu-west-1:111122223333:certificate/any'',
          DomainName = ''*''\<rparr>]
      = Inl (certNotFound ''api.example.com'')"
  by (simp add: getCertArn_select_def config_def forEach_certificate_def stripWildcard_def)

section \<open>Hosted zone matching and selection\<close>

lemma labelsLoop_iff:
  "labelsLoop g z i \<longleftrightarrow> (\<forall>j. i \<le> j \<and> j < length z \<longrightarrow> at g j = Some (z ! j))"
proof (induction g z i rule: labelsLoop.induct)
  case (1 g z i)
  show ?case
  proof (cases "i < length z")
    case False
    then have "labelsLoop g z i" by (subst labelsLoop.simps) simp
    with False show ?thesis by auto
  next
    case True
    show ?thesis
    proof (cases "at g i = Some (z ! i)")
      case False
      with True have "\<not> labelsLoop g z i" by (subst labelsLoop.simps) simp
      with True False show ?thesis by blast
    next
      case eq: True
      have "labelsLoop g z i = labelsLoop g z (i + 1)"
        using True eq by (subst labelsLoop.simps) simp
      also have "\<dots> \<longleftrightarrow> (\<forall>j. i + 1 \<le> j \<and> j < length z \<longrightarrow> at g j = Some (z ! j))"
        using "1.IH" True eq by simp
      also have "\<dots> \<longleftrightarrow> (\<forall>j. i \<le> j \<and> j < length z \<longrightarrow> at g j = Some (z ! j))"
      proof
        assume h: "\<forall>j. i + 1 \<le> j \<and> j < length z \<longrightarrow> at g j = Some (z ! j)"
        show "\<forall>j. i \<le> j \<and> j < length z \<longrightarrow> at g j = Some (z ! j)"
        proof (intro allI impI)
          fix j assume j: "i \<le> j \<and> j < length z"
          show "at g j = Some (z ! j)"
          proof (cases "j = i")
            case True
            with eq show ?thesis by simp
          next
            case False
            with j have "i + 1 \<le> j \<and> j < length z" by simp
            with h show ?thesis by blast
          qed
        qed
      next
        assume "\<forall>j. i \<le> j \<and> j < length z \<longrightarrow> at g j = Some (z ! j)"
        then show "\<forall>j. i + 1 \<le> j \<and> j < length z \<longrightarrow> at g j = Some (z ! j)" by simp
      qed
      finally show ?thesis .
    qed
  qed
qed

text \<open>The loop from \<open>0\<close> is the prefix test, whatever the two lengths are.\<close>

lemma labelsLoop_prefix: "labelsLoop g z 0 \<longleftrightarrow> prefix z g"
proof -
  have "labelsLoop g z 0 \<longleftrightarrow> (\<forall>j < length z. j < length g \<and> g ! j = z ! j)"
    by (auto simp: labelsLoop_iff at_def split: if_splits)
  also have "\<dots> \<longleftrightarrow> length z \<le> length g \<and> (\<forall>j < length z. g ! j = z ! j)"
    by (meson leI less_le_trans order_less_irrefl)
  also have "\<dots> \<longleftrightarrow> prefix z g"
    by (auto simp: prefix_def list_eq_iff_nth_eq nth_append intro!: exI[of _ "drop (length z) g"])
  finally show ?thesis .
qed

text \<open>
  C2 (as amended). A hosted zone is kept exactly when it passes the privacy filter
  (\<^verbatim>\<open>hostedZonePrivate\<close> unset, or equal to the zone's \<^verbatim>\<open>PrivateZone\<close> flag) and the labels
  of its name, with one trailing dot taken off, reversed, are a label-by-label prefix of
  the reversed labels of the requested domain. A requested domain of a single label is no
  exception: it has to pass the same test.
\<close>

theorem hostedZone_filter_iff:
  "hostedZone_filter domain zone \<longleftrightarrow>
     (hostedZonePrivate domain = None \<or> hostedZonePrivate domain = Some (PrivateZone zone))
     \<and> prefix (rev (split (CHR ''.'')
                      (if endsWith (ZoneName zone) (CHR ''.'')
                       then butlast (ZoneName zone) else ZoneName zone)))
              (rev (split (CHR ''.'') (givenDomainName domain)))"
proof -
  have "\<not> length g \<ge> length z \<Longrightarrow> \<not> prefix z g" for g z :: "string list"
    by (auto dest: prefix_length_le)
  then show ?thesis
    by (auto simp: hostedZone_filter_def Let_def labelsLoop_prefix slice_0_minus1_def)
qed

theorem hostedZone_filter_iff_witness:
  "hostedZone_filter (config ''foo.example.com'' REST REGIONAL)
     \<lparr>ZoneId = ''/hostedzone/Z111'', ZoneName = ''example.com.'', PrivateZone = False\<rparr>
   \<and> \<not> hostedZone_filter (config ''foo.example.com'' REST REGIONAL)
         \<lparr>ZoneId = ''/hostedzone/Z222'', ZoneName = ''ample.com'', PrivateZone = False\<rparr>"
  using hostedZone_filter_iff
          [of "config ''foo.example.com'' REST REGIONAL"
              "\<lparr>ZoneId = ''/hostedzone/Z111'', ZoneName = ''example.com.'', PrivateZone = False\<rparr>"]
        hostedZone_filter_iff
          [of "config ''foo.example.com'' REST REGIONAL"
              "\<lparr>ZoneId = ''/hostedzone/Z222'', ZoneName = ''ample.com'', PrivateZone = False\<rparr>"]
  by (simp add: config_def endsWith_def)

text \<open>The single-label domain \<^verbatim>\<open>localhost\<close> does not match the zone \<^verbatim>\<open>example.com.\<close>.\<close>

theorem hostedZone_filter_single_label_counterexample:
  "length (rev (split (CHR ''.'') (givenDomainName (config ''localhost'' REST REGIONAL)))) = 1
   \<and> hostedZonePrivate (config ''localhost'' REST REGIONAL) = None
   \<and> \<not> hostedZone_filter (config ''localhost'' REST REGIONAL)
         \<lparr>ZoneId = ''/hostedzone/Z111'', ZoneName = ''example.com.'', PrivateZone = False\<rparr>"
  by (simp add: hostedZone_filter_def config_def endsWith_def slice_0_minus1_def Let_def
        labelsLoop.simps at_def)

lemma indexOfFrom_textAfter:
  "spec_textAfter d s = Some t \<Longrightarrow>
     \<exists>k. indexOfFrom s d i = int (i + k) \<and> k + length d \<le> length s \<and> drop (k + length d) s = t"
proof (induction s arbitrary: i)
  case Nil
  then show ?case by (auto split: if_splits)
next
  case (Cons c cs)
  show ?case
  proof (cases "prefix d (c # cs)")
    case True
    with Cons.prems have "t = drop (length d) (c # cs)" by simp
    moreover from True have "length d \<le> length (c # cs)" by (rule prefix_length_le)
    ultimately show ?thesis using True by (intro exI[of _ 0]) simp
  next
    case False
    with Cons.prems have "spec_textAfter d cs = Some t" by simp
    from Cons.IH[OF this, of "Suc i"] obtain k where
      k: "indexOfFrom cs d (Suc i) = int (Suc i + k)" "k + length d \<le> length cs"
         "drop (k + length d) cs = t"
      by blast
    show ?thesis using False k by (intro exI[of _ "Suc k"]) simp
  qed
qed

lemma extractHostedZoneId_textAfter:
  assumes "spec_textAfter ''e/'' zoneId = Some t"
  shows "extractHostedZoneId zoneId = t"
proof -
  from indexOfFrom_textAfter[OF assms, of 0] obtain k where
    k: "indexOf zoneId ''e/'' = int k" "k + 2 \<le> length zoneId" "drop (k + 2) zoneId = t"
    by (auto simp: indexOf_def)
  have n: "nat (int k + 2) = k + 2" by simp
  have l: "length t = length zoneId - (k + 2)" using k(3) by auto
  have m: "nat (int (length zoneId) - (int k + 2)) = length zoneId - (k + 2)"
    using k(2) by linarith
  have "extractHostedZoneId zoneId = take (length zoneId - (k + 2)) (drop (k + 2) zoneId)"
    using k(1,2) by (simp add: extractHostedZoneId_def substring_def Let_def min_def max_def n m)
  also have "\<dots> = t" using k(3) l by simp
  finally show ?thesis .
qed

text \<open>Without the delimiter \<^verbatim>\<open>indexOf\<close> is \<open>-1\<close> and the identifier loses its first
  character.\<close>

lemma extractHostedZoneId_no_delimiter:
  "extractHostedZoneId ''Z111'' = ''111''"
  by (simp add: extractHostedZoneId_def indexOf_def substring_def Let_def)

lemma sort_key_head:
  assumes "sort_key f xs = y # ys"
  shows "y \<in> set xs \<and> (\<forall>x \<in> set xs. f y \<le> f x)"
proof -
  have s: "sorted (map f (sort_key f xs))" by simp
  have m: "set (sort_key f xs) = set xs" by simp
  from m assms have "y \<in> set xs" by (metis list.set_intros(1))
  moreover have "\<forall>x \<in> set xs. f y \<le> f x"
  proof
    fix x assume "x \<in> set xs"
    with m assms have "x = y \<or> x \<in> set ys" by (metis set_ConsD)
    with s assms show "f y \<le> f x" by auto
  qed
  ultimately show ?thesis by blast
qed

lemma targetHostedZone_longest:
  assumes "filter (hostedZone_filter domain) zones \<noteq> []"
  shows "\<exists>zone \<in> set (filter (hostedZone_filter domain) zones).
            targetHostedZone domain zones = Some zone
          \<and> (\<forall>z \<in> set (filter (hostedZone_filter domain) zones).
                 length (ZoneName z) \<le> length (ZoneName zone))"
proof -
  let ?ms = "filter (hostedZone_filter domain) zones"
  let ?f = "\<lambda>zone. - int (length (ZoneName zone))"
  from assms have "sort_key ?f ?ms \<noteq> []" by (metis length_0_conv length_sort)
  then obtain y ys where y: "sort_key ?f ?ms = y # ys" by (cases "sort_key ?f ?ms") auto
  from sort_key_head[OF y] have "y \<in> set ?ms" "\<forall>x \<in> set ?ms. ?f y \<le> ?f x" by blast+
  moreover have "targetHostedZone domain zones = Some y"
    using y by (simp add: targetHostedZone_def sortByNameLength_def)
  ultimately show ?thesis by (intro bexI[of _ y]) auto
qed

text \<open>Among zones of the same greatest length the stable sort leaves the first of the
  listing in front.\<close>

lemma targetHostedZone_first_of_longest:
  assumes "targetHostedZone domain zones = Some zone"
  shows "find (\<lambda>z. length (ZoneName z) = length (ZoneName zone))
              (filter (hostedZone_filter domain) zones) = Some zone"
proof -
  let ?ms = "filter (hostedZone_filter domain) zones"
  let ?f = "\<lambda>zone. - int (length (ZoneName zone))"
  from assms obtain ys where y: "sort_key ?f ?ms = zone # ys"
    by (auto simp: targetHostedZone_def sortByNameLength_def split: list.splits)
  have "filter (\<lambda>z. ?f z = ?f zone) ?ms = filter (\<lambda>z. ?f z = ?f zone) (sort_key ?f ?ms)"
    by (rule sort_key_stable[symmetric])
  also have "\<dots> = zone # filter (\<lambda>z. ?f z = ?f zone) ys" by (simp add: y)
  finally have "filter (\<lambda>z. length (ZoneName z) = length (ZoneName zone)) ?ms
                  = zone # filter (\<lambda>z. length (ZoneName z) = length (ZoneName zone)) ys"
    by simp
  moreover have "filter P xs = a # as \<Longrightarrow> find P xs = Some a" for P xs and a :: HostedZone and as
    by (induction xs) (auto split: if_splits)
  ultimately show ?thesis by blast
qed

text \<open>
  C3. Without a \<^verbatim>\<open>hostedZoneId\<close> override, when the zones are listed and at least one
  matches, hosted-zone resolution succeeds with a matching zone whose raw name is at
  least as long as that of every match, and returns what \<^verbatim>\<open>substring(indexOf("e/") + 2)\<close>
  cuts from its identifier: whenever the identifier contains \<^verbatim>\<open>e/\<close>, the text after the
  first occurrence.
\<close>

theorem getRoute53HostedZoneId_longest_zone:
  assumes "\<not> truthy (hostedZoneId domain)"
      and "listHostedZones aws = Inr zones"
      and "filter (hostedZone_filter domain) zones \<noteq> []"
  shows "\<exists>zone \<in> set (filter (hostedZone_filter domain) zones).
            (\<forall>z \<in> set (filter (hostedZone_filter domain) zones).
                 length (ZoneName z) \<le> length (ZoneName zone))
          \<and> snd (getRoute53HostedZoneId p aws domain) = Inr (extractHostedZoneId (ZoneId zone))
          \<and> (\<forall>t. spec_textAfter ''e/'' (ZoneId zone) = Some t \<longrightarrow>
                 snd (getRoute53HostedZoneId p aws domain) = Inr t)"
proof -
  from targetHostedZone_longest[OF assms(3)] obtain zone where
    z: "zone \<in> set (filter (hostedZone_filter domain) zones)"
       "targetHostedZone domain zones = Some zone"
       "\<forall>z \<in> set (filter (hostedZone_filter domain) zones).
           length (ZoneName z) \<le> length (ZoneName zone)"
    by blast
  have r: "snd (getRoute53HostedZoneId p aws domain) = Inr (extractHostedZoneId (ZoneId zone))"
    using assms(1,2) z(2) by (simp add: getRoute53HostedZoneId_def Let_def)
  show ?thesis
    using z r extractHostedZoneId_textAfter by (intro bexI[of _ zone]) auto
qed

text \<open>The worked example: \<^verbatim>\<open>foo.bar.example.com\<close> against the zones \<^verbatim>\<open>example.com.\<close> and
  \<^verbatim>\<open>bar.example.com.\<close>, the latter with the identifier \<^verbatim>\<open>/hostedzone/ABC123\<close>.\<close>

theorem getRoute53HostedZoneId_longest_zone_witness:
  "\<not> truthy (hostedZoneId (config ''foo.bar.example.com'' REST REGIONAL))
   \<and> listHostedZones (cloud noCertificates (Inr exampleZones)) = Inr exampleZones
   \<and> filter (hostedZone_filter (config ''foo.bar.example.com'' REST REGIONAL)) exampleZones = exampleZones
   \<and> spec_textAfter ''e/'' ''/hostedzone/ABC123'' = Some ''ABC123''
   \<and> snd (getRoute53HostedZoneId (pluginWith None []) (cloud noCertificates (Inr exampleZones))
            (config ''foo.bar.example.com'' REST REGIONAL)) = Inr ''ABC123''"
proof -
  let ?d = "config ''foo.bar.example.com'' REST REGIONAL"
  let ?aws = "cloud noCertificates (Inr exampleZones)"
  have h1: "\<not> truthy (hostedZoneId ?d)" by (simp add: config_def truthy_def)
  have h2: "listHostedZones ?aws = Inr exampleZones" by (simp add: cloud_def)
  have m: "filter (hostedZone_filter ?d) exampleZones = exampleZones"
    by (simp add: exampleZones_def hostedZone_filter_def config_def endsWith_def
          slice_0_minus1_def Let_def labelsLoop.simps at_def)
  have h3: "filter (hostedZone_filter ?d) exampleZones \<noteq> []"
    by (simp add: m) (simp add: exampleZones_def)
  have t1: "spec_textAfter ''e/'' ''/hostedzone/ABC123'' = Some ''ABC123''" by simp
  have t2: "spec_textAfter ''e/'' ''/hostedzone/Z111'' = Some ''Z111''" by simp
  from getRoute53HostedZoneId_longest_zone[OF h1 h2 h3, of "pluginWith None []"]
  obtain zone where z: "zone \<in> set exampleZones"
      "\<forall>z \<in> set exampleZones. length (ZoneName z) \<le> length (ZoneName zone)"
      "\<forall>t. spec_textAfter ''e/'' (ZoneId zone) = Some t \<longrightarrow>
           snd (getRoute53HostedZoneId (pluginWith None []) ?aws ?d) = Inr t"
    unfolding m by blast
  from z(1,2) have "ZoneId zone = ''/hostedzone/ABC123''"
    by (auto simp: exampleZones_def)
  with z(3) t1 have "snd (getRoute53HostedZoneId (pluginWith None []) ?aws ?d) = Inr ''ABC123''"
    by simp
  with h1 h2 m t1 show ?thesis by simp
qed

section \<open>The alias records of a change\<close>

lemma changeBatches_append: "changeBatches (a @ b) = changeBatches a @ changeBatches b"
  by (induction a rule: changeBatches.induct) simp_all

lemma changeBatches_logIfDebug: "changeBatches (logIfDebug p err n) = []"
  by (simp add: logIfDebug_def)

lemma changeBatches_getRoute53HostedZoneId:
  "changeBatches (fst (getRoute53HostedZoneId p aws d)) = []"
  by (auto simp: getRoute53HostedZoneId_def Let_def changeBatches_append changeBatches_logIfDebug
           split: option.splits bool.splits sum.splits)

text \<open>
  C6 (as amended). For a domain whose \<^verbatim>\<open>createRoute53Record\<close> is not \<^verbatim>\<open>false\<close>, whose
  \<^verbatim>\<open>domainInfo\<close> is populated and whose hosted zone is resolved, a call of
  \<^verbatim>\<open>changeResourceRecordSet\<close> with \<^verbatim>\<open>UPSERT\<close> or \<^verbatim>\<open>DELETE\<close> submits exactly one change batch,
  to that zone, of exactly two changes: an \<^verbatim>\<open>A\<close> and an \<^verbatim>\<open>AAAA\<close> alias record, both named by
  the given domain name, both with the target \<^verbatim>\<open>domainInfo.domainName\<close> in
  \<^verbatim>\<open>domainInfo.hostedZoneId\<close>, both with \<^verbatim>\<open>EvaluateTargetHealth\<close> false.
\<close>

theorem changeResourceRecordSet_alias_batch:
  assumes act: "action = ''UPSERT'' \<or> action = ''DELETE''"
      and r53: "createRoute53Record domain \<noteq> Some False"
      and info: "domainInfo domain = Some info"
      and zone: "snd (getRoute53HostedZoneId p aws domain) = Inr zoneId"
  shows "changeBatches (fst (changeResourceRecordSet p aws action domain)) =
           [\<lparr>ChangeBatch =
               \<lparr>Changes =
                  [\<lparr>Action = action,
                    ResourceRecordSet =
                      \<lparr>AliasTarget = \<lparr>DNSName = domainName info, EvaluateTargetHealth = False,
                                      alias_HostedZoneId = info_hostedZoneId info\<rparr>,
                       Name = givenDomainName domain, Type = ''A''\<rparr>\<rparr>,
                   \<lparr>Action = action,
                    ResourceRecordSet =
                      \<lparr>AliasTarget = \<lparr>DNSName = domainName info, EvaluateTargetHealth = False,
                                      alias_HostedZoneId = info_hostedZoneId info\<rparr>,
                       Name = givenDomainName domain, Type = ''AAAA''\<rparr>\<rparr>],
                Comment = ''Record created by serverless-domain-manager''\<rparr>,
             HostedZoneId = zoneId\<rparr>]"
proof -
  obtain ev where z: "getRoute53HostedZoneId p aws domain = (ev, Inr zoneId)"
    using zone by (cases "getRoute53HostedZoneId p aws domain") simp
  have ev: "changeBatches ev = []"
    using changeBatches_getRoute53HostedZoneId[of p aws domain] z by simp
  from act have a: "\<not> (action \<noteq> ''UPSERT'' \<and> action \<noteq> ''DELETE'')" by blast
  show ?thesis
    using r53
    by (simp only: changeResourceRecordSet_def a if_False z info)
       (simp add: Let_def aliasChange_def changeBatches_append changeBatches_logIfDebug ev
             split: sum.splits)
qed

theorem changeResourceRecordSet_alias_batch_witness:
  "createRoute53Record ((config ''api.example.com'' REST REGIONAL)\<lparr>domainInfo := Some distribution\<rparr>)
      \<noteq> Some False
   \<and> snd (getRoute53HostedZoneId (pluginWith None []) (cloud noCertificates (Inr exampleZones))
            ((config ''api.example.com'' REST REGIONAL)\<lparr>domainInfo := Some distribution\<rparr>))
       = Inr ''Z111''
   \<and> changeBatches (fst (changeResourceRecordSet (pluginWith None [])
                            (cloud noCertificates (Inr exampleZones)) ''DELETE''
                            ((config ''api.example.com'' REST REGIONAL)\<lparr>domainInfo := Some distribution\<rparr>)))
       = [\<lparr>ChangeBatch =
             \<lparr>Changes =
                [\<lparr>Action = ''DELETE'',
                  ResourceRecordSet =
                    \<lparr>AliasTarget = \<lparr>DNSName = ''d-1234.execute-api.eu-west-1.amazonaws.com'',
                                    EvaluateTargetHealth = False,
                                    alias_HostedZoneId = ''ZLY8HYME6SFDD''\<rparr>,
                     Name = ''api.example.com'', Type = ''A''\<rparr>\<rparr>,
                 \<lparr>Action = ''DELETE'',
                  ResourceRecordSet =
                    \<lparr>AliasTarget = \<lparr>DNSName = ''d-1234.execute-api.eu-west-1.amazonaws.com'',
                                    EvaluateTargetHealth = False,
                                    alias_HostedZoneId = ''ZLY8HYME6SFDD''\<rparr>,
                     Name = ''api.example.com'', Type = ''AAAA''\<rparr>\<rparr>],
              Comment = ''Record created by serverless-domain-manager''\<rparr>,
           HostedZoneId = ''Z111''\<rparr>]"
proof -
  let ?d = "(config ''api.example.com'' REST REGIONAL)\<lparr>domainInfo := Some distribution\<rparr>"
  let ?p = "pluginWith None []"
  let ?aws = "cloud noCertificates (Inr exampleZones)"
  have h1: "''DELETE'' = ''UPSERT'' \<or> ''DELETE'' = ''DELETE''" by simp
  have h2: "createRoute53Record ?d \<noteq> Some False" by (simp add: config_def)
  have h3: "domainInfo ?d = Some distribution" by simp
  have h4: "snd (getRoute53HostedZoneId ?p ?aws ?d) = Inr ''Z111''"
    by (simp add: getRoute53HostedZoneId_def config_def truthy_def cloud_def exampleZones_def
          targetHostedZone_def sortByNameLength_def hostedZone_filter_def endsWith_def
          slice_0_minus1_def Let_def labelsLoop.simps at_def extractHostedZoneId_def
          indexOf_def substring_def)
  have n: "givenDomainName ?d = ''api.example.com''" by (simp add: config_def)
  have n': "givenDomainName (config ''api.example.com'' REST REGIONAL) = ''api.example.com''"
    by (simp add: config_def)
  from changeResourceRecordSet_alias_batch[OF h1 h2 h3 h4] h2 h4 show ?thesis
    by (simp add: n n' distribution_def)
qed

text \<open>With no zone to match, the call fails before anything is submitted.\<close>

theorem changeResourceRecordSet_no_zone_counterexample:
  "createRoute53Record ((config ''api.example.com'' REST REGIONAL)\<lparr>domainInfo := Some distribution\<rparr>)
      \<noteq> Some False
   \<and> domainInfo ((config ''api.example.com'' REST REGIONAL)\<lparr>domainInfo := Some distribution\<rparr>)
      \<noteq> None
   \<and> changeResourceRecordSet (pluginWith None []) (cloud noCertificates (Inr [])) ''UPSERT''
        ((config ''api.example.com'' REST REGIONAL)\<lparr>domainInfo := Some distribution\<rparr>)
      = ([Call ListHostedZones], Inl (hostedZoneNotFound ''api.example.com''))
   \<and> changeBatches [Call ListHostedZones] = []"
  by (simp add: changeResourceRecordSet_def getRoute53HostedZoneId_def config_def truthy_def
        cloud_def targetHostedZone_def sortByNameLength_def Let_def)

section \<open>Validation before any lifecycle function\<close>

lemma validateDomainConfigs_Cons:
  "validateDomainConfigs (d # ds) =
     (let warning = (if allowPathMatching d
                     then [Log (allowPathMatchingWarning (givenDomainName d))] else [])
      in if (apiType d = HTTP \<or> apiType d = WEBSOCKET) \<and> endpointType d = EDGE
         then (warning,
               Inl (edgeNotCompatible (if apiType d = HTTP then ''HTTP'' else ''WebSocket'')))
         else (warning @ fst (validateDomainConfigs ds), snd (validateDomainConfigs ds)))"
  by (cases "apiType d") (simp_all add: Let_def case_prod_beta)

lemma validateDomainConfigs_no_call:
  "e \<in> set (fst (validateDomainConfigs ds)) \<Longrightarrow> \<not> isCall e"
proof (induction ds)
  case Nil
  then show ?case by simp
next
  case (Cons d ds)
  then show ?case
    unfolding validateDomainConfigs_Cons
    by (auto simp: Let_def isCall_def split: if_splits)
qed

lemma validateDomainConfigs_Cons_ok:
  assumes "\<not> ((apiType d = HTTP \<or> apiType d = WEBSOCKET) \<and> endpointType d = EDGE)"
  shows "snd (validateDomainConfigs (d # ds)) = snd (validateDomainConfigs ds)"
  using assms unfolding validateDomainConfigs_Cons by (auto simp: Let_def)

lemma validateDomainConfigs_Cons_edge:
  assumes "(apiType d = HTTP \<or> apiType d = WEBSOCKET) \<and> endpointType d = EDGE"
  shows "snd (validateDomainConfigs (d # ds))
           = Inl (edgeNotCompatible (if apiType d = HTTP then ''HTTP'' else ''WebSocket''))"
  using assms unfolding validateDomainConfigs_Cons by (simp add: Let_def)

lemma validateDomainConfigs_rejects:
  assumes "\<exists>d \<in> set ds. (apiType d = HTTP \<or> apiType d = WEBSOCKET) \<and> endpointType d = EDGE"
  shows "snd (validateDomainConfigs ds) = Inl (edgeNotCompatible ''HTTP'')
       \<or> snd (validateDomainConfigs ds) = Inl (edgeNotCompatible ''WebSocket'')"
  using assms
proof (induction ds)
  case Nil
  then show ?case by simp
next
  case (Cons d ds)
  show ?case
  proof (cases "(apiType d = HTTP \<or> apiType d = WEBSOCKET) \<and> endpointType d = EDGE")
    case True
    from validateDomainConfigs_Cons_edge[OF True, of ds] show ?thesis by (simp split: if_splits)
  next
    case False
    with Cons.prems
    have "\<exists>d \<in> set ds. (apiType d = HTTP \<or> apiType d = WEBSOCKET) \<and> endpointType d = EDGE"
      by auto
    from Cons.IH[OF this] validateDomainConfigs_Cons_ok[OF False, of ds] show ?thesis by simp
  qed
qed

lemma domains_foldl_setAcmRegion: "domains (foldl setAcmRegion p ds) = domains p"
  by (induction ds arbitrary: p) (simp_all add: setAcmRegion_def)

text \<open>
  C5. When the domains built from the configuration and left by the \<^verbatim>\<open>enabled\<close> filter
  contain one with \<^verbatim>\<open>apiType\<close> HTTP or WEBSOCKET and \<^verbatim>\<open>endpointType\<close> EDGE, every operation
  behind \<^verbatim>\<open>hookWrapper\<close> ends with the error "'edge' endpointType is not compatible with
  HTTP APIs" (or "... WebSocket APIs"): the lifecycle function is not run, and nothing
  that happened before the error is a remote call.
\<close>

theorem hookWrapper_rejects_edge:
  assumes built: "initializeVariables_domains newDomainConfig customDomain = Inr built"
      and edge: "\<exists>d \<in> set (filter enabled built).
                  (apiType d = HTTP \<or> apiType d = WEBSOCKET) \<and> endpointType d = EDGE"
  shows "\<exists>ev err. hookWrapper newDomainConfig (Some customDomain) p lifecycleFunc = (ev, Inl err)
            \<and> (\<forall>e \<in> set ev. \<not> isCall e)
            \<and> (err = edgeNotCompatible ''HTTP'' \<or> err = edgeNotCompatible ''WebSocket'')"
proof -
  let ?ds = "filter enabled built"
  obtain ev r where v: "validateDomainConfigs ?ds = (ev, r)"
    by (cases "validateDomainConfigs ?ds")
  from validateDomainConfigs_rejects[OF edge] v
  obtain err where r: "r = Inl err"
    and err: "err = edgeNotCompatible ''HTTP'' \<or> err = edgeNotCompatible ''WebSocket''"
    by auto
  from validateDomainConfigs_no_call[of _ ?ds] v have nc: "\<forall>e \<in> set ev. \<not> isCall e" by simp
  have "hookWrapper newDomainConfig (Some customDomain) p lifecycleFunc = (ev, Inl err)"
    by (simp add: hookWrapper_def initializeVariables_def built Let_def
          domains_foldl_setAcmRegion v r)
  with err nc show ?thesis by blast
qed

theorem hookWrapper_rejects_edge_witness:
  "initializeVariables_domains plainConstructor
      [(''rest'', config ''api.example.com'' REST EDGE),
       (''http'', config ''http.example.com'' HTTP EDGE)]
     = Inr [config ''api.example.com'' REST EDGE, config ''http.example.com'' HTTP EDGE]
   \<and> hookWrapper plainConstructor
        (Some [(''rest'', config ''api.example.com'' REST EDGE),
               (''http'', config ''http.example.com'' HTTP EDGE)])
        (pluginWith None [])
        (\<lambda>p'. createDomains p' (cloud noCertificates (Inr exampleZones)))
      = ([], Inl (edgeNotCompatible ''HTTP''))"
proof -
  let ?cd = "[(''rest'', config ''api.example.com'' REST EDGE),
              (''http'', config ''http.example.com'' HTTP EDGE)]"
  let ?built = "[config ''api.example.com'' REST EDGE, config ''http.example.com'' HTTP EDGE]"
  let ?f = "\<lambda>p'. createDomains p' (cloud noCertificates (Inr exampleZones))"
  have h1: "initializeVariables_domains plainConstructor ?cd = Inr ?built"
    by (simp add: initializeVariables_domains_def apiTypes_def plainConstructor_def)
  have en: "filter enabled ?built = ?built"
    by (simp add: config_def)
  have h2: "\<exists>d \<in> set (filter enabled ?built).
              (apiType d = HTTP \<or> apiType d = WEBSOCKET) \<and> endpointType d = EDGE"
    unfolding en by (intro bexI[of _ "config ''http.example.com'' HTTP EDGE"]) (simp_all add: config_def)
  have v: "validateDomainConfigs ?built = ([], Inl (edgeNotCompatible ''HTTP''))"
    by (simp add: config_def)
  have run: "hookWrapper plainConstructor (Some ?cd) (pluginWith None []) ?f
               = ([], Inl (edgeNotCompatible ''HTTP''))"
    by (simp add: hookWrapper_def initializeVariables_def h1 Let_def
          domains_foldl_setAcmRegion en v del: filter.simps validateDomainConfigs.simps)
  from hookWrapper_rejects_edge[OF h1 h2, of "pluginWith None []" ?f] h1 run
  show ?thesis by simp
qed

section \<open>Reading the certificate listing\<close>

lemma listCertificates_loop_pages:
  "servesPages acm token pages \<Longrightarrow>
     listCertificates_loop acm certs token asked =
       Some (asked @ token # map NextToken (butlast pages),
             Inr (certs @ concat (map CertificateSummaryList pages)))"
proof (induction acm token pages arbitrary: certs asked rule: servesPages.induct)
  case (1 acm token)
  then show ?case by simp
next
  case (2 acm token page)
  then show ?case by (subst listCertificates_loop.simps) (simp add: Let_def)
next
  case (3 acm token page nxt rest)
  from "3.prems" have a: "acm token = Inr page" "truthy (NextToken page)"
    "servesPages acm (NextToken page) (nxt # rest)" by simp_all
  show ?case
    by (subst listCertificates_loop.simps) (simp add: a Let_def "3.IH"[OF a(3)])
qed

text \<open>
  The compiled build follows the tokens to the last page and selects from all pages
  together, for every store that serves finitely many pages.
\<close>

lemma getCertArn_reads_every_page:
  assumes "\<not> truthy (certificateArn domain)" "acmRegion p = Some r"
      and "servesPages (listCertificates aws r) None pages"
  shows "getCertArn p aws domain =
           Some (map (\<lambda>t. Call (ListCertificates r t)) (None # map NextToken (butlast pages)),
                 getCertArn_select domain (concat (map CertificateSummaryList pages)))"
  using assms(1,2) listCertificates_loop_pages[OF assms(3), of "[]" "[]"]
  by (simp add: getCertArn_def)

text \<open>
  C7, at a store of two pages whose second page holds the only matching certificate:
  \<^verbatim>\<open>getCertArn\<close> of \<^verbatim>\<open>index.ts\<close> asks once, never reads \<^verbatim>\<open>NextToken\<close> and fails with "could
  not find the certificate", where the compiled build asks twice and returns the
  certificate of the second page.
\<close>

theorem getCertArn_ts_first_page_only:
  "getCertArn_ts (pluginWith (Some ''eu-west-1'') []) (cloud twoPages (Inr []))
        (config ''api.example.com'' REST REGIONAL)
      = ([Call (ListCertificates ''eu-west-1'' None)], Inl (certNotFound ''api.example.com''))
   \<and> getCertArn (pluginWith (Some ''eu-west-1'') []) (cloud twoPages (Inr []))
        (config ''api.example.com'' REST REGIONAL)
      = Some ([Call (ListCertificates ''eu-west-1'' None),
               Call (ListCertificates ''eu-west-1'' (Some ''page-2''))],
              Inr ''arn:aws:acm:eu-west-1:111122223333:certificate/second'')"
  by (simp add: getCertArn_ts_def getCertArn_def pluginWith_def cloud_def config_def twoPages_def
        truthy_def listCertificates_loop.simps getCertArn_select_def forEach_certificate_def
        stripWildcard_def)

section \<open>The region of the certificate store\<close>

text \<open>After initialisation the one client \<^verbatim>\<open>this.acm\<close> is in the region of the last
  domain.\<close>

lemma acmRegion_foldl_setAcmRegion:
  "acmRegion (foldl setAcmRegion p (ds @ [d]))
     = Some (if endpointType d = REGIONAL then getRegion p else ''us-east-1'')"
proof -
  have "getRegion (foldl setAcmRegion p ds) = getRegion p"
    by (induction ds arbitrary: p) (simp_all add: setAcmRegion_def)
  then show ?thesis by (simp add: setAcmRegion_def)
qed

text \<open>
  C8, at a configuration of an EDGE domain followed by a REGIONAL one, deployed in
  \<^verbatim>\<open>eu-west-1\<close>: the certificate listing for the EDGE domain is sent to \<^verbatim>\<open>eu-west-1\<close>, not
  to \<^verbatim>\<open>us-east-1\<close>, and the EDGE domain is given the certificate of \<^verbatim>\<open>eu-west-1\<close>; in the
  compiled build and in \<^verbatim>\<open>index.ts\<close> alike.
\<close>

theorem getCertArn_edge_queries_last_region:
  "hookWrapper plainConstructor
     (Some [(''rest'', config ''edge.example.com'' REST EDGE),
            (''http'', config ''regional.example.com'' HTTP REGIONAL)])
     (pluginWith None [])
     (\<lambda>p. map (\<lambda>d. (endpointType d, getCertArn p (cloud byRegion (Inr [])) d)) (domains p))
   = ([], Inr [(EDGE, Some ([Call (ListCertificates ''eu-west-1'' None)],
                            Inr ''arn:aws:acm:eu-west-1:111122223333:certificate/wildcard'')),
               (REGIONAL, Some ([Call (ListCertificates ''eu-west-1'' None)],
                            Inr ''arn:aws:acm:eu-west-1:111122223333:certificate/wildcard''))])
   \<and> hookWrapper_ts plainConstructor
     (Some [(''rest'', config ''edge.example.com'' REST EDGE),
            (''http'', config ''regional.example.com'' HTTP REGIONAL)])
     (pluginWith None [])
     (\<lambda>p. map (\<lambda>d. (endpointType d, getCertArn_ts p (cloud byRegion (Inr [])) d)) (domains p))
   = ([], Inr [(EDGE, [Call (ListCertificates ''eu-west-1'' None)],
                      Inr ''arn:aws:acm:eu-west-1:111122223333:certificate/wildcard''),
               (REGIONAL, [Call (ListCertificates ''eu-west-1'' None)],
                      Inr ''arn:aws:acm:eu-west-1:111122223333:certificate/wildcard'')])"
proof -
  have lower: "toLowerCase ''rest'' = ''rest''" "toLowerCase ''http'' = ''http''"
    by (simp_all add: toLowerCase_def)
  have build: "hookWrapper plainConstructor
     (Some [(''rest'', config ''edge.example.com'' REST EDGE),
            (''http'', config ''regional.example.com'' HTTP REGIONAL)])
     (pluginWith None [])
     (\<lambda>p. map (\<lambda>d. (endpointType d, getCertArn p (cloud byRegion (Inr [])) d)) (domains p))
   = ([], Inr [(EDGE, Some ([Call (ListCertificates ''eu-west-1'' None)],
                            Inr ''arn:aws:acm:eu-west-1:111122223333:certificate/wildcard'')),
               (REGIONAL, Some ([Call (ListCertificates ''eu-west-1'' None)],
                            Inr ''arn:aws:acm:eu-west-1:111122223333:certificate/wildcard''))])"
    by (simp add: hookWrapper_def initializeVariables_def initializeVariables_domains_def
          apiTypes_def plainConstructor_def config_def pluginWith_def setAcmRegion_def Let_def
          getCertArn_def truthy_def cloud_def byRegion_def listCertificates_loop.simps
          getCertArn_select_def forEach_certificate_def stripWildcard_def)
  have ts: "hookWrapper_ts plainConstructor
     (Some [(''rest'', config ''edge.example.com'' REST EDGE),
            (''http'', config ''regional.example.com'' HTTP REGIONAL)])
     (pluginWith None [])
     (\<lambda>p. map (\<lambda>d. (endpointType d, getCertArn_ts p (cloud byRegion (Inr [])) d)) (domains p))
   = ([], Inr [(EDGE, [Call (ListCertificates ''eu-west-1'' None)],
                      Inr ''arn:aws:acm:eu-west-1:111122223333:certificate/wildcard''),
               (REGIONAL, [Call (ListCertificates ''eu-west-1'' None)],
                      Inr ''arn:aws:acm:eu-west-1:111122223333:certificate/wildcard'')])"
    by (simp add: hookWrapper_ts_def initializeVariables_ts_def lower
          apiTypes_def plainConstructor_def config_def pluginWith_def setAcmRegion_def Let_def
          getCertArn_ts_def truthy_def cloud_def byRegion_def
          getCertArn_select_def forEach_certificate_def stripWildcard_def)
  from build ts show ?thesis by (rule conjI)
qed

section \<open>What the debug toggle controls\<close>

lemma quiet_simps [simp]:
  "quiet [] = []"
  "quiet (Log m # ev) = Log m # quiet ev"
  "quiet (Call c # ev) = Call c # quiet ev"
  "quiet (LogEntity m l # ev) = quiet ev"
  "quiet (a @ b) = quiet a @ quiet b"
  by (simp_all add: quiet_def isDebugLine_def)

lemma quiet_logIfDebug [simp]: "quiet (logIfDebug p err n) = []"
  by (simp add: logIfDebug_def)

lemma logIfDebug_withoutDebug [simp]: "logIfDebug (withoutDebug p) err n = []"
  by (simp add: logIfDebug_def withoutDebug_def truthy_def)

lemma quiet_map_Call [simp]: "quiet (map (\<lambda>t. Call (f t)) ts) = map (\<lambda>t. Call (f t)) ts"
  by (induction ts) simp_all

lemma withoutDebug_fields [simp]:
  "acmRegion (withoutDebug p) = acmRegion p"
  "customDomain_hostedZoneId (withoutDebug p) = customDomain_hostedZoneId p"
  "getRegion (withoutDebug p) = getRegion p"
  "domains (withoutDebug p) = domains p"
  by (simp_all add: withoutDebug_def)

text \<open>In the compiled build a run without the toggle is the run with it, less the lines
  of \<^verbatim>\<open>logIfDebug\<close>, with the same outcome.\<close>

lemma getCertArn_withoutDebug:
  "getCertArn (withoutDebug p) aws d = map_option (\<lambda>(ev, r). (quiet ev, r)) (getCertArn p aws d)"
  by (auto simp: getCertArn_def Let_def split: option.splits sum.splits prod.splits)

lemma getRoute53HostedZoneId_withoutDebug:
  "getRoute53HostedZoneId (withoutDebug p) aws d
     = (\<lambda>(ev, r). (quiet ev, r)) (getRoute53HostedZoneId p aws d)"
  by (auto simp: getRoute53HostedZoneId_def Let_def
           split: option.splits sum.splits prod.splits bool.splits)

lemma changeResourceRecordSet_withoutDebug:
  "changeResourceRecordSet (withoutDebug p) aws action d
     = (\<lambda>(ev, r). (quiet ev, r)) (changeResourceRecordSet p aws action d)"
  by (auto simp: changeResourceRecordSet_def getRoute53HostedZoneId_withoutDebug Let_def
           split: option.splits sum.splits prod.splits)

lemma createCustomDomain_withoutDebug:
  "createCustomDomain (withoutDebug p) aws d
     = (\<lambda>(ev, d', r). (quiet ev, d', r)) (createCustomDomain p aws d)"
  by (auto simp: createCustomDomain_def Let_def split: option.splits sum.splits prod.splits)

lemma getDomainInfo_task_withoutDebug:
  "getDomainInfo_task (withoutDebug p) aws d
     = (\<lambda>(ev, d', r). (quiet ev, d', r)) (getDomainInfo_task p aws d)"
  by (auto simp: getDomainInfo_task_def Let_def split: option.splits sum.splits prod.splits)

lemma createDomains_task_withoutDebug:
  "createDomains_task (withoutDebug p) aws d
     = map_option (\<lambda>(ev, d', r). (quiet ev, d', r)) (createDomains_task p aws d)"
  by (auto simp: createDomains_task_def getCertArn_withoutDebug changeResourceRecordSet_withoutDebug
                 createCustomDomain_withoutDebug Let_def
           split: option.splits sum.splits prod.splits)

text \<open>\<^verbatim>\<open>logIfDebug\<close> of \<^verbatim>\<open>index.ts\<close> writes its line whatever the environment holds.\<close>

lemma logIfDebug_ts_always:
  "logIfDebug_ts p err name
     = [LogEntity ((if name \<noteq> [] then name @ '': '' else []) @ '' '' @ toString err)
                  ''Serverless Domain Manager'']"
  by (simp add: logIfDebug_ts_def)

text \<open>
  C9, at a certificate listing that the provider refuses, with \<^verbatim>\<open>SLS_DEBUG\<close> absent: the
  error caught in \<^verbatim>\<open>getCertArn\<close> of \<^verbatim>\<open>index.ts\<close> is written out with the provider's code and
  message; the compiled build writes nothing.
\<close>

theorem logIfDebug_ts_ignores_toggle:
  "SLS_DEBUG (pluginWith (Some ''eu-west-1'') []) = None
   \<and> fst (getCertArn_ts (pluginWith (Some ''eu-west-1'') []) (cloud denied (Inr []))
            (config ''api.example.com'' REST REGIONAL))
      = [Call (ListCertificates ''eu-west-1'' None),
         LogEntity ''api.example.com:  AccessDeniedException: User deploy is not authorized to perform acm:ListCertificates''
                   ''Serverless Domain Manager'']
   \<and> map_option fst (getCertArn (pluginWith (Some ''eu-west-1'') []) (cloud denied (Inr []))
                       (config ''api.example.com'' REST REGIONAL))
      = Some [Call (ListCertificates ''eu-west-1'' None)]"
  by (simp add: getCertArn_ts_def getCertArn_def pluginWith_def cloud_def config_def denied_def
        truthy_def logIfDebug_ts_def logIfDebug_def listCertificates_loop.simps)

end
